theory Spec2Isabelle
  imports Complex_Main "HOL-Library.Multiset"
begin

section \<open>Numbers, errors and results\<close>

text \<open>
  The statistics library works on JavaScript numbers. Finite numbers are modelled as
  \<^typ>\<open>real\<close> with exact arithmetic (no rounding, no overflow); the not-a-number value
  and the two infinities that the library can return are separate constructors.
\<close>

datatype jsnum = Num real | PosInf | NegInf | NaN

text \<open>Every \<^verbatim>\<open>throw new Error(...)\<close> of the library is one constructor.\<close>

datatype error =
    MeanEmpty                 \<comment> \<open>"mean requires at least one data point"\<close>
  | SampleVarianceTooFew      \<comment> \<open>"sampleVariance requires at least two data points"\<close>
  | ModeEmpty                 \<comment> \<open>"mode requires at least one data point"\<close>
  | ModeFastEmpty             \<comment> \<open>"mode requires at last one data point"\<close>
  | QuantileEmpty             \<comment> \<open>"quantile requires at least one data point."\<close>
  | QuantileRange             \<comment> \<open>"quantiles must be between 0 and 1"\<close>
  | FactorialNegative         \<comment> \<open>"factorial requires a non-negative value"\<close>
  | FactorialNonInteger       \<comment> \<open>"factorial requires an integer input"\<close>
  | WilcoxonEmpty             \<comment> \<open>"Neither sample can be empty"\<close>
  | AlternativeInvalid        \<comment> \<open>"`alternative` must be either 'two_side', 'greater', or 'less'."\<close>
  | CkmeansTooManyClasses     \<comment> \<open>"cannot generate more classes than there are data values"\<close>
  | CentroidNoFriends nat     \<comment> \<open>"Centroid i has no friends"\<close>
  | TypeError                 \<comment> \<open>the engine's TypeError on reading a property of undefined\<close>

section \<open>Factorial and gamma\<close>




text \<open>Division of two finite numbers as the engine does it (the sign of zero is not modelled).\<close>

definition js_div :: "real \<Rightarrow> real \<Rightarrow> jsnum" where
  "js_div a b =
     (if b \<noteq> 0 then Num (a / b)
      else if a = 0 then NaN else if a > 0 then PosInf else NegInf)"





section \<open>Sum, mean and variance\<close>

text \<open>
  \<^verbatim>\<open>sum\<close> on an array of numbers (Kahan-Babuska): the running sum (\<open>sm\<close>) and the running
  correction. The \<^verbatim>\<open>typeof\<close> tests of the source cannot fail on an array of numbers;
  \<open>sum_vals\<close> below is the same function on an array whose elements may be undefined.
\<close>

fun sum_loop :: "real \<Rightarrow> real \<Rightarrow> real list \<Rightarrow> real" where
  "sum_loop sm correction [] = sm + correction"
| "sum_loop sm correction (xi # xs) =
     (let transition = sm + xi;
          correction' = (if \<bar>sm\<bar> \<ge> \<bar>xi\<bar> then correction + (sm - transition + xi)
                         else correction + (xi - transition + sm))
      in sum_loop transition correction' xs)"

definition sum_js :: "real list \<Rightarrow> real" where
  "sum_js x = (case x of [] \<Rightarrow> 0 | x0 # xs \<Rightarrow> sum_loop x0 0 xs)"

definition mean :: "real list \<Rightarrow> error + real" where
  "mean x = (if length x = 0 then Inl MeanEmpty else Inr (sum_js x / of_nat (length x)))"

fun sum_vals_loop :: "real \<Rightarrow> real \<Rightarrow> real option list \<Rightarrow> jsnum" where
  "sum_vals_loop sm correction [] = Num (sm + correction)"
| "sum_vals_loop sm correction (None # xs) = NaN"
| "sum_vals_loop sm correction (Some xi # xs) =
     (let transition = sm + xi;
          correction' = (if \<bar>sm\<bar> \<ge> \<bar>xi\<bar> then correction + (sm - transition + xi)
                         else correction + (xi - transition + sm))
      in sum_vals_loop transition correction' xs)"

definition sum_vals :: "real option list \<Rightarrow> jsnum" where
  "sum_vals x =
     (case x of [] \<Rightarrow> Num 0 | None # xs \<Rightarrow> NaN | Some x0 # xs \<Rightarrow> sum_vals_loop x0 0 xs)"

definition mean_vals :: "real option list \<Rightarrow> error + jsnum" where
  "mean_vals x =
     (if length x = 0 then Inl MeanEmpty
      else Inr (case sum_vals x of Num s \<Rightarrow> Num (s / of_nat (length x)) | other \<Rightarrow> other))"

text \<open>\<^verbatim>\<open>sumNthPowerDeviations\<close>: the power is a natural number in every call of the library.\<close>

definition sumNthPowerDeviations :: "real list \<Rightarrow> nat \<Rightarrow> error + real" where
  "sumNthPowerDeviations x n =
     (case mean x of
        Inl e \<Rightarrow> Inl e
      | Inr meanValue \<Rightarrow>
          Inr (if n = 2
               then foldl (\<lambda>sm xi. sm + (xi - meanValue) * (xi - meanValue)) 0 x
               else foldl (\<lambda>sm xi. sm + (xi - meanValue) ^ n) 0 x))"

definition sampleVariance :: "real list \<Rightarrow> error + real" where
  "sampleVariance x =
     (if length x < 2 then Inl SampleVarianceTooFew
      else case sumNthPowerDeviations x 2 of
             Inl e \<Rightarrow> Inl e
           | Inr sumSquaredDeviationsValue \<Rightarrow>
               Inr (sumSquaredDeviationsValue / (of_nat (length x) - 1)))"

section \<open>Two-sample t-test\<close>

text \<open>
  The third argument is \<open>None\<close> when the caller omits it; the result \<open>Inr None\<close> is
  \<^verbatim>\<open>null\<close>. The four \<^verbatim>\<open>typeof\<close> tests hold for every number, so the final \<^verbatim>\<open>if\<close> always
  takes its branch. The square root is taken of a non-negative number.
\<close>

definition tTestTwoSample :: "real list \<Rightarrow> real list \<Rightarrow> real option \<Rightarrow> error + jsnum option" where
  "tTestTwoSample sampleX sampleY difference =
     (let n = length sampleX; m = length sampleY in
      if n = 0 \<or> m = 0 then Inr None
      else
        let difference' = (case difference of None \<Rightarrow> 0 | Some d \<Rightarrow> if d = 0 then 0 else d) in
        (case mean sampleX of Inl e \<Rightarrow> Inl e | Inr meanX \<Rightarrow>
        (case mean sampleY of Inl e \<Rightarrow> Inl e | Inr meanY \<Rightarrow>
        (case sampleVariance sampleX of Inl e \<Rightarrow> Inl e | Inr sampleVarianceX \<Rightarrow>
        (case sampleVariance sampleY of Inl e \<Rightarrow> Inl e | Inr sampleVarianceY \<Rightarrow>
          (let weightedVariance =
                ((of_nat n - 1) * sampleVarianceX + (of_nat m - 1) * sampleVarianceY) /
                (of_nat n + of_nat m - 2)
           in Inr (Some (js_div (meanX - meanY - difference')
                                (sqrt (weightedVariance * (1 / of_nat n + 1 / of_nat m)))))))))))"

section \<open>Arrays that are mutated in place\<close>

text \<open>
  An array object that the library writes to: its \<^verbatim>\<open>length\<close> and its elements by integer
  key. A key without a number reads as \<^verbatim>\<open>undefined\<close> (\<open>None\<close>). A write at a key at or
  beyond the length extends the array, a write at a negative key only sets a property,
  as the engine does.
\<close>

record 'a jsarr =
  alength :: nat
  elems :: "int \<Rightarrow> 'a option"

definition arr_of_list :: "'a list \<Rightarrow> 'a jsarr" where
  "arr_of_list xs =
     \<lparr>alength = length xs,
      elems = (\<lambda>i. if 0 \<le> i \<and> i < int (length xs) then Some (xs ! nat i) else None)\<rparr>"

definition aget :: "'a jsarr \<Rightarrow> int \<Rightarrow> 'a option" where
  "aget arr i = elems arr i"

definition aset :: "'a jsarr \<Rightarrow> int \<Rightarrow> 'a option \<Rightarrow> 'a jsarr" where
  "aset arr i v =
     \<lparr>alength = (if 0 \<le> i then max (alength arr) (nat i + 1) else alength arr),
      elems = (elems arr)(i := v)\<rparr>"

text \<open>\<^verbatim>\<open>arr.slice(from, to)\<close> for \<open>0 \<le> from\<close>: the elements below \<open>to\<close> and below the length.\<close>

definition aslice :: "'a jsarr \<Rightarrow> nat \<Rightarrow> nat \<Rightarrow> 'a option list" where
  "aslice arr from to = map (\<lambda>i. elems arr (int i)) [from ..< min to (alength arr)]"

section \<open>Arithmetic and comparison on results that may be NaN or infinite\<close>

fun js_sub :: "jsnum \<Rightarrow> jsnum \<Rightarrow> jsnum" where
  "js_sub (Num a) (Num b) = Num (a - b)"
| "js_sub NaN _ = NaN"
| "js_sub _ NaN = NaN"
| "js_sub PosInf PosInf = NaN"
| "js_sub NegInf NegInf = NaN"
| "js_sub PosInf _ = PosInf"
| "js_sub NegInf _ = NegInf"
| "js_sub (Num a) PosInf = NegInf"
| "js_sub (Num a) NegInf = PosInf"

fun js_abs :: "jsnum \<Rightarrow> jsnum" where
  "js_abs (Num a) = Num \<bar>a\<bar>"
| "js_abs NaN = NaN"
| "js_abs PosInf = PosInf"
| "js_abs NegInf = PosInf"

text \<open>\<open>a >= b\<close>: false as soon as one side is NaN.\<close>

fun js_ge :: "jsnum \<Rightarrow> jsnum \<Rightarrow> bool" where
  "js_ge NaN _ = False"
| "js_ge _ NaN = False"
| "js_ge (Num a) (Num b) = (a \<ge> b)"
| "js_ge PosInf _ = True"
| "js_ge _ NegInf = True"
| "js_ge NegInf _ = False"
| "js_ge (Num a) PosInf = False"

definition js_le :: "jsnum \<Rightarrow> jsnum \<Rightarrow> bool" where
  "js_le a b = js_ge b a"

section \<open>Shuffling and the permutation test\<close>

text \<open>
  The entropy source is the sequence of the numbers it returns: \<open>rnd c\<close> is the result of
  its call number \<open>c\<close>, and the count of the calls made so far is passed along.
  \<^verbatim>\<open>shuffleInPlace\<close>: the loop variable \<^verbatim>\<open>length\<close> counts down to 0.
\<close>

fun shuffle_loop :: "nat \<Rightarrow> 'a jsarr \<Rightarrow> (nat \<Rightarrow> real) \<Rightarrow> nat \<Rightarrow> 'a jsarr \<times> nat" where
  "shuffle_loop 0 x rnd c = (x, c)"
| "shuffle_loop (Suc len) x rnd c =
     (let index = \<lfloor>rnd c * of_nat (Suc len)\<rfloor>;
          temporary = aget x (int len);
          x1 = aset x (int len) (aget x index);
          x2 = aset x1 index temporary
      in shuffle_loop len x2 rnd (Suc c))"

definition shuffleInPlace :: "'a jsarr \<Rightarrow> (nat \<Rightarrow> real) \<Rightarrow> nat \<Rightarrow> 'a jsarr \<times> nat" where
  "shuffleInPlace x rnd c = shuffle_loop (alength x) x rnd c"

text \<open>The first loop of \<^verbatim>\<open>permutationTest\<close>: \<open>k\<close> shuffles of the same array \<^verbatim>\<open>allData\<close>.\<close>

fun perm_loop :: "nat \<Rightarrow> nat \<Rightarrow> real jsarr \<Rightarrow> (nat \<Rightarrow> real) \<Rightarrow> nat \<Rightarrow> error + jsnum list" where
  "perm_loop 0 midIndex allData rnd c = Inr []"
| "perm_loop (Suc k) midIndex allData rnd c =
     (case shuffleInPlace allData rnd c of (allData', c') \<Rightarrow>
        (let permLeft = aslice allData' 0 midIndex;
             permRight = aslice allData' midIndex (alength allData')
         in (case mean_vals permLeft of Inl e \<Rightarrow> Inl e | Inr meanLeft \<Rightarrow>
            (case mean_vals permRight of Inl e \<Rightarrow> Inl e | Inr meanRight \<Rightarrow>
            (case perm_loop k midIndex allData' rnd c' of Inl e \<Rightarrow> Inl e
             | Inr rest \<Rightarrow> Inr (js_sub meanLeft meanRight # rest))))))"

text \<open>
  \<^verbatim>\<open>testStatDsn[i]\<close> in the counting loops, which run up to \<open>i = k\<close>: the entry beyond the
  last one is \<^verbatim>\<open>undefined\<close>, which compares as NaN.
\<close>

definition testStatDsn_at :: "jsnum list \<Rightarrow> nat \<Rightarrow> jsnum" where
  "testStatDsn_at testStatDsn i = (if i < length testStatDsn then testStatDsn ! i else NaN)"

definition numExtremeTStats :: "string \<Rightarrow> jsnum list \<Rightarrow> real \<Rightarrow> nat \<Rightarrow> nat" where
  "numExtremeTStats alternative testStatDsn testStatistic k =
     (if alternative = ''two_side'' then
        length (filter (\<lambda>i. js_ge (js_abs (testStatDsn_at testStatDsn i)) (js_abs (Num testStatistic)))
                  [0 ..< k + 1])
      else if alternative = ''greater'' then
        length (filter (\<lambda>i. js_ge (testStatDsn_at testStatDsn i) (Num testStatistic)) [0 ..< k + 1])
      else
        length (filter (\<lambda>i. js_le (testStatDsn_at testStatDsn i) (Num testStatistic)) [0 ..< k + 1]))"

text \<open>
  \<^verbatim>\<open>permutationTest\<close>: the selector and the count are \<open>None\<close> when the caller leaves them
  \<^verbatim>\<open>undefined\<close>; the count is a natural number.
\<close>

definition permutationTest ::
  "real list \<Rightarrow> real list \<Rightarrow> string option \<Rightarrow> nat option \<Rightarrow> (nat \<Rightarrow> real) \<Rightarrow> error + jsnum" where
  "permutationTest sampleX sampleY alternative k rnd =
     (let k' = (case k of None \<Rightarrow> 10000 | Some k0 \<Rightarrow> k0);
          alternative' = (case alternative of None \<Rightarrow> ''two_side'' | Some a \<Rightarrow> a)
      in
      if alternative' \<noteq> ''two_side'' \<and> alternative' \<noteq> ''greater'' \<and> alternative' \<noteq> ''less''
      then Inl AlternativeInvalid
      else
        (case mean sampleX of Inl e \<Rightarrow> Inl e | Inr meanX \<Rightarrow>
        (case mean sampleY of Inl e \<Rightarrow> Inl e | Inr meanY \<Rightarrow>
          (let testStatistic = meanX - meanY;
               allData = arr_of_list (sampleX @ sampleY);
               midIndex = alength allData div 2
           in (case perm_loop k' midIndex allData rnd 0 of
                 Inl e \<Rightarrow> Inl e
               | Inr testStatDsn \<Rightarrow>
                   Inr (js_div (of_nat (numExtremeTStats alternative' testStatDsn testStatistic k'))
                               (of_nat k')))))))"

section \<open>Wilcoxon rank sum\<close>

text \<open>
  An entry of \<^verbatim>\<open>pooledSamples\<close>: the label \<^verbatim>\<open>"x"\<close> or \<^verbatim>\<open>"y"\<close>, the value and the rank.
  \<^verbatim>\<open>Array.prototype.sort\<close> is stable, as \<^const>\<open>sort_key\<close> is.
\<close>

record pooled =
  label :: string
  pvalue :: real
  rank :: real

text \<open>
  \<^verbatim>\<open>replaceRanksInPlace\<close>: the entries of \<^verbatim>\<open>tiedRanks\<close> are used as indices into
  \<^verbatim>\<open>pooledSamples\<close>; an entry that is no index of the array would make the assignment a
  TypeError.
\<close>

fun replace_loop :: "real \<Rightarrow> real list \<Rightarrow> pooled list \<Rightarrow> error + pooled list" where
  "replace_loop average [] pooledSamples = Inr pooledSamples"
| "replace_loop average (t # ts) pooledSamples =
     (if of_int \<lfloor>t\<rfloor> = t \<and> 0 \<le> t \<and> nat \<lfloor>t\<rfloor> < length pooledSamples
      then replace_loop average ts
             (pooledSamples[nat \<lfloor>t\<rfloor> := (pooledSamples ! nat \<lfloor>t\<rfloor>)\<lparr>rank := average\<rparr>])
      else Inl TypeError)"

definition replaceRanksInPlace :: "pooled list \<Rightarrow> real list \<Rightarrow> error + pooled list" where
  "replaceRanksInPlace pooledSamples tiedRanks =
     (case tiedRanks of
        [] \<Rightarrow> Inr pooledSamples
      | t0 # _ \<Rightarrow> replace_loop ((t0 + last tiedRanks) / 2) tiedRanks pooledSamples)"

text \<open>
  The loop over \<open>i = 1, \<dots>, length - 1\<close> that collects the ranks of equal values; the
  first argument is the list of the indices still to visit.
\<close>

fun tie_loop :: "nat list \<Rightarrow> pooled list \<Rightarrow> real list \<Rightarrow> error + pooled list" where
  "tie_loop [] pooledSamples tiedRanks = Inr pooledSamples"
| "tie_loop (i # is) pooledSamples tiedRanks =
     (if pvalue (pooledSamples ! i) = pvalue (pooledSamples ! (i - 1)) then
        (let tiedRanks' = tiedRanks @ [rank (pooledSamples ! i)] in
         if i = length pooledSamples - 1 then
           (case replaceRanksInPlace pooledSamples tiedRanks' of
              Inl e \<Rightarrow> Inl e
            | Inr pooledSamples' \<Rightarrow> tie_loop is pooledSamples' tiedRanks')
         else tie_loop is pooledSamples tiedRanks')
      else if length tiedRanks > 1 then
        (case replaceRanksInPlace pooledSamples tiedRanks of
           Inl e \<Rightarrow> Inl e
         | Inr pooledSamples' \<Rightarrow> tie_loop is pooledSamples' tiedRanks)
      else tie_loop is pooledSamples [rank (pooledSamples ! i)])"

definition wilcoxonRankSum :: "real list \<Rightarrow> real list \<Rightarrow> error + real" where
  "wilcoxonRankSum sampleX sampleY =
     (if length sampleX = 0 \<or> length sampleY = 0 then Inl WilcoxonEmpty
      else
        let sortedSamples = sort_key pvalue
              (map (\<lambda>x. \<lparr>label = ''x'', pvalue = x, rank = 0\<rparr>) sampleX @
               map (\<lambda>y. \<lparr>label = ''y'', pvalue = y, rank = 0\<rparr>) sampleY);
            pooledSamples = map (\<lambda>(r, p). p\<lparr>rank := of_nat r\<rparr>) (enumerate 0 sortedSamples)
        in case tie_loop [1 ..< length pooledSamples] pooledSamples [rank (pooledSamples ! 0)] of
             Inl e \<Rightarrow> Inl e
           | Inr ranked \<Rightarrow>
               Inr (foldl (\<lambda>rankSum s. if label s = ''x'' then rankSum + (rank s + 1) else rankSum)
                      0 ranked))"

section \<open>Mode\<close>

text \<open>
  The loop of \<^verbatim>\<open>modeSorted\<close> over \<open>i = 1, \<dots>, length\<close>. Its last round reads
  \<^verbatim>\<open>sorted[length]\<close>, which is \<^verbatim>\<open>undefined\<close> and differs from every number: that round is
  the first equation.
\<close>

fun modeSorted_loop :: "real list \<Rightarrow> real \<Rightarrow> jsnum \<Rightarrow> nat \<Rightarrow> nat \<Rightarrow> jsnum" where
  "modeSorted_loop [] lst mvalue maxSeen seenThis =
     (if seenThis > maxSeen then Num lst else mvalue)"
| "modeSorted_loop (si # rest) lst mvalue maxSeen seenThis =
     (if si \<noteq> lst then
        (if seenThis > maxSeen then modeSorted_loop rest si (Num lst) seenThis 1
         else modeSorted_loop rest si mvalue maxSeen 1)
      else modeSorted_loop rest lst mvalue maxSeen (seenThis + 1))"

definition modeSorted :: "real list \<Rightarrow> error + jsnum" where
  "modeSorted srt =
     (case srt of
        [] \<Rightarrow> Inl ModeEmpty
      | [s0] \<Rightarrow> Inr (Num s0)
      | s0 # rest \<Rightarrow> Inr (modeSorted_loop rest s0 NaN 0 1))"

definition numericSort :: "real list \<Rightarrow> real list" where
  "numericSort x = sort x"

definition mode :: "real list \<Rightarrow> error + jsnum" where
  "mode x = modeSorted (numericSort x)"

text \<open>\<^verbatim>\<open>modeFast\<close>: the \<^verbatim>\<open>Map\<close> from values to counts, the running mode and its count.\<close>

fun modeFast_loop :: "real list \<Rightarrow> (real \<rightharpoonup> nat) \<Rightarrow> real option \<Rightarrow> nat \<Rightarrow> real option \<times> nat" where
  "modeFast_loop [] index md modeCount = (md, modeCount)"
| "modeFast_loop (xi # xs) index md modeCount =
     (let newCount = (case index xi of None \<Rightarrow> 1 | Some c \<Rightarrow> c + 1) in
      if newCount > modeCount then modeFast_loop xs (index(xi \<mapsto> newCount)) (Some xi) newCount
      else modeFast_loop xs (index(xi \<mapsto> newCount)) md modeCount)"

definition modeFast :: "real list \<Rightarrow> error + real option" where
  "modeFast x =
     (case modeFast_loop x Map.empty None 0 of
        (md, modeCount) \<Rightarrow> if modeCount = 0 then Inl ModeFastEmpty else Inr md)"

section \<open>Quantiles\<close>

text \<open>
  \<^verbatim>\<open>quantileSorted\<close> reads the array it is given, which inside \<^verbatim>\<open>quantile\<close> is the
  rearranged copy. A result \<open>None\<close> is \<^verbatim>\<open>undefined\<close> (an element that is not there); the
  average of two elements one of which is not there is NaN.
\<close>

definition js_avg :: "real option \<Rightarrow> real option \<Rightarrow> jsnum option" where
  "js_avg a b = (case (a, b) of (Some u, Some v) \<Rightarrow> Some (Num ((u + v) / 2)) | _ \<Rightarrow> Some NaN)"

definition quantileSorted :: "real jsarr \<Rightarrow> real \<Rightarrow> error + jsnum option" where
  "quantileSorted x p =
     (let idx = of_nat (alength x) * p in
      if alength x = 0 then Inl QuantileEmpty
      else if p < 0 \<or> p > 1 then Inl QuantileRange
      else if p = 1 then Inr (map_option Num (aget x (int (alength x) - 1)))
      else if p = 0 then Inr (map_option Num (aget x 0))
      else if of_int \<lfloor>idx\<rfloor> \<noteq> idx then Inr (map_option Num (aget x (\<lceil>idx\<rceil> - 1)))
      else if alength x mod 2 = 0 then Inr (js_avg (aget x (\<lfloor>idx\<rfloor> - 1)) (aget x \<lfloor>idx\<rfloor>))
      else Inr (map_option Num (aget x \<lfloor>idx\<rfloor>)))"

definition quantileIndex :: "nat \<Rightarrow> real \<Rightarrow> real" where
  "quantileIndex len p =
     (let idx = of_nat len * p in
      if p = 1 then of_nat len - 1
      else if p = 0 then 0
      else if of_int \<lfloor>idx\<rfloor> \<noteq> idx then of_int \<lceil>idx\<rceil> - 1
      else if len mod 2 = 0 then idx - 1 / 2
      else idx)"

subsection \<open>Selection in place\<close>

text \<open>Comparisons of array elements: a comparison with \<^verbatim>\<open>undefined\<close> is false.\<close>

definition js_lt :: "real option \<Rightarrow> real option \<Rightarrow> bool" where
  "js_lt a b = (case (a, b) of (Some u, Some v) \<Rightarrow> u < v | _ \<Rightarrow> False)"

definition js_gt :: "real option \<Rightarrow> real option \<Rightarrow> bool" where
  "js_gt a b = js_lt b a"

definition swap :: "real jsarr \<Rightarrow> int \<Rightarrow> int \<Rightarrow> real jsarr" where
  "swap arr i j =
     (let tmp = aget arr i;
          arr1 = aset arr i (aget arr j)
      in aset arr1 j tmp)"

text \<open>
  The loops of \<^verbatim>\<open>quickselect\<close>. None of them has a bound that the array model enforces,
  so each is a partial function: \<open>None\<close> is a loop that does not end.
  \<open>scan_up\<close> is \<^verbatim>\<open>while (arr[i] < t) i++\<close>, \<open>scan_down\<close> is \<^verbatim>\<open>while (arr[j] > t) j--\<close>,
  \<open>partition_loop\<close> is \<^verbatim>\<open>while (i < j) { ... }\<close>.
\<close>

partial_function (option) scan_up :: "real jsarr \<Rightarrow> real option \<Rightarrow> int \<Rightarrow> int option" where
  "scan_up arr t i = (if js_lt (aget arr i) t then scan_up arr t (i + 1) else Some i)"

partial_function (option) scan_down :: "real jsarr \<Rightarrow> real option \<Rightarrow> int \<Rightarrow> int option" where
  "scan_down arr t j = (if js_gt (aget arr j) t then scan_down arr t (j - 1) else Some j)"

declare scan_up.simps [code]
declare scan_down.simps [code]

partial_function (option) partition_loop ::
  "real jsarr \<Rightarrow> real option \<Rightarrow> int \<Rightarrow> int \<Rightarrow> (real jsarr \<times> int \<times> int) option" where
  "partition_loop arr t i j =
     (if i < j then
        Option.bind (scan_up (swap arr i j) t (i + 1)) (\<lambda>i'.
        Option.bind (scan_down (swap arr i j) t (j - 1)) (\<lambda>j'.
          partition_loop (swap arr i j) t i' j'))
      else Some (arr, i, j))"

declare partition_loop.simps [code]

text \<open>The bounds of the Floyd-Rivest step, taken when more than 601 elements are left.\<close>

definition floyd_rivest_bounds :: "int \<Rightarrow> int \<Rightarrow> int \<Rightarrow> int \<times> int" where
  "floyd_rivest_bounds k left right =
     (let n = real_of_int (right - left + 1);
          m = real_of_int (k - left + 1);
          z = ln n;
          s = (1 / 2) * exp (2 * z / 3);
          sd0 = (1 / 2) * sqrt (z * s * (n - s) / n);
          sd = (if m - n / 2 < 0 then sd0 * (- 1) else sd0);
          newLeft = max left \<lfloor>of_int k - m * s / n + sd\<rfloor>;
          newRight = min right \<lfloor>of_int k + (n - m) * s / n + sd\<rfloor>
      in (newLeft, newRight))"

text \<open>Logarithm, exponential and square root are not evaluated: the bounds stay symbolic.\<close>

declare floyd_rivest_bounds_def [code del]

text \<open>
  The statements of one round of the outer loop after the Floyd-Rivest step, up to the
  new bounds \<^verbatim>\<open>left\<close> and \<^verbatim>\<open>right\<close>.
\<close>

definition partition_round ::
  "real jsarr \<Rightarrow> int \<Rightarrow> int \<Rightarrow> int \<Rightarrow> (real jsarr \<times> int \<times> int) option" where
  "partition_round arr k left right =
     (let t = aget arr k;
          arr1 = swap arr left k;
          arr2 = (if js_gt (aget arr1 right) t then swap arr1 left right else arr1)
      in Option.bind (partition_loop arr2 t left right) (\<lambda>(arr3, i, j).
           let arr4 = (if aget arr3 left = t then swap arr3 left j else swap arr3 (j + 1) right);
               j' = (if aget arr3 left = t then j else j + 1);
               left' = (if j' \<le> k then j' + 1 else left);
               right' = (if k \<le> j' then j' - 1 else right)
           in Some (arr4, left', right')))"

text \<open>
  \<open>right_default\<close> is \<^verbatim>\<open>right = right || arr.length - 1\<close>; \<^verbatim>\<open>left || 0\<close> changes no number.
  \<open>quickselect_loop\<close> is the outer loop, which calls \<^verbatim>\<open>quickselect\<close> itself in the
  Floyd-Rivest step.
\<close>

definition right_default :: "real jsarr \<Rightarrow> int \<Rightarrow> int" where
  "right_default arr right = (if right = 0 then int (alength arr) - 1 else right)"

partial_function (option) quickselect_loop :: "real jsarr \<Rightarrow> int \<Rightarrow> int \<Rightarrow> int \<Rightarrow> real jsarr option" where
  "quickselect_loop arr k left right =
     (if right > left then
        Option.bind
          (if right - left > 600
           then quickselect_loop arr k (fst (floyd_rivest_bounds k left right))
                  (right_default arr (snd (floyd_rivest_bounds k left right)))
           else Some arr)
          (\<lambda>arr0. Option.bind (partition_round arr0 k left right) (\<lambda>(arr4, left', right').
             quickselect_loop arr4 k left' right'))
      else Some arr)"

declare quickselect_loop.simps [code]

definition quickselect :: "real jsarr \<Rightarrow> int \<Rightarrow> int \<Rightarrow> int \<Rightarrow> real jsarr option" where
  "quickselect arr k left right = quickselect_loop arr k left (right_default arr right)"

definition quantileSelect :: "real jsarr \<Rightarrow> real \<Rightarrow> int \<Rightarrow> int \<Rightarrow> real jsarr option" where
  "quantileSelect arr k left right =
     (if of_int \<lfloor>k\<rfloor> = k then quickselect arr \<lfloor>k\<rfloor> left right
      else Option.bind (quickselect arr \<lfloor>k\<rfloor> left right) (\<lambda>arr1.
             quickselect arr1 (\<lfloor>k\<rfloor> + 1) (\<lfloor>k\<rfloor> + 1) right))"

text \<open>
  \<^verbatim>\<open>multiQuantileSelect\<close>: the stack holds positions in \<^verbatim>\<open>indices\<close>, its top is the head
  of the list. An entry of \<^verbatim>\<open>indices\<close> that is not there is \<^verbatim>\<open>undefined\<close>; the positions
  on the stack stay inside \<^verbatim>\<open>indices\<close>, and \<open>indices_at\<close> gives 0 outside.
\<close>

definition indices_at :: "real list \<Rightarrow> int \<Rightarrow> real" where
  "indices_at indices i = (if 0 \<le> i \<and> i < int (length indices) then indices ! nat i else 0)"

partial_function (option) multi_loop :: "int list \<Rightarrow> real list \<Rightarrow> real jsarr \<Rightarrow> real jsarr option" where
  "multi_loop stack indices arr =
     (case stack of
        r # l # rest \<Rightarrow>
          if r - l \<le> 1 then multi_loop rest indices arr
          else
            Option.bind
              (quantileSelect arr (indices_at indices ((l + r) div 2))
                 \<lfloor>indices_at indices l\<rfloor> \<lceil>indices_at indices r\<rceil>)
              (\<lambda>arr1. multi_loop (r # ((l + r) div 2) # ((l + r) div 2) # l # rest) indices arr1)
      | _ \<Rightarrow> Some arr)"

declare multi_loop.simps [code]

definition multiQuantileSelect :: "real jsarr \<Rightarrow> real list \<Rightarrow> real jsarr option" where
  "multiQuantileSelect arr p =
     (let indices = sort ([0] @ map (quantileIndex (alength arr)) p @ [of_nat (alength arr) - 1])
      in multi_loop [int (length indices) - 1, 0] indices arr)"

subsection \<open>The public function, on a store of array objects\<close>

text \<open>
  The caller's array and the copy that \<^verbatim>\<open>quantile\<close> makes are two objects. A store maps
  references to array objects; \<open>nxt\<close> is the first reference not in use.
\<close>

record store =
  cells :: "nat \<Rightarrow> real jsarr"
  nxt :: nat

definition alloc :: "store \<Rightarrow> real jsarr \<Rightarrow> store \<times> nat" where
  "alloc h arr = (h\<lparr>cells := (cells h)(nxt h := arr), nxt := Suc (nxt h)\<rparr>, nxt h)"

text \<open>\<^verbatim>\<open>x.slice()\<close>: a new array with the elements of \<open>x\<close> below its length.\<close>

definition slice_all :: "real jsarr \<Rightarrow> real jsarr" where
  "slice_all arr =
     \<lparr>alength = alength arr,
      elems = (\<lambda>i. if 0 \<le> i \<and> i < int (alength arr) then elems arr i else None)\<rparr>"

text \<open>The in-place selections, on the object a reference points to.\<close>

definition quantileSelect_at :: "store \<Rightarrow> nat \<Rightarrow> real \<Rightarrow> int \<Rightarrow> int \<Rightarrow> store option" where
  "quantileSelect_at h r k left right =
     map_option (\<lambda>arr. h\<lparr>cells := (cells h)(r := arr)\<rparr>) (quantileSelect (cells h r) k left right)"

definition multiQuantileSelect_at :: "store \<Rightarrow> nat \<Rightarrow> real list \<Rightarrow> store option" where
  "multiQuantileSelect_at h r p =
     map_option (\<lambda>arr. h\<lparr>cells := (cells h)(r := arr)\<rparr>) (multiQuantileSelect (cells h r) p)"

datatype parg = PNum real | PArr "real list"

datatype qres = QNum "jsnum option" | QArr "jsnum option list"

text \<open>The loop that fills \<^verbatim>\<open>results\<close>; the first error ends it.\<close>

fun quantile_results :: "real jsarr \<Rightarrow> real list \<Rightarrow> error + jsnum option list" where
  "quantile_results copy [] = Inr []"
| "quantile_results copy (p0 # ps) =
     (case quantileSorted copy p0 of
        Inl e \<Rightarrow> Inl e
      | Inr q \<Rightarrow> (case quantile_results copy ps of Inl e \<Rightarrow> Inl e | Inr qs \<Rightarrow> Inr (q # qs)))"

text \<open>
  \<^verbatim>\<open>quantile(x, p)\<close> for the array at reference \<open>x\<close>: the store afterwards and the value
  returned or the error thrown.
\<close>

definition quantile :: "store \<Rightarrow> nat \<Rightarrow> parg \<Rightarrow> (store \<times> (error + qres)) option" where
  "quantile h x p =
     (case alloc h (slice_all (cells h x)) of (h1, copy) \<Rightarrow>
        (case p of
           PArr ps \<Rightarrow>
             Option.bind (multiQuantileSelect_at h1 copy ps) (\<lambda>h2.
               Some (h2, map_sum id QArr (quantile_results (cells h2 copy) ps)))
         | PNum p0 \<Rightarrow>
             let idx = quantileIndex (alength (cells h1 copy)) p0 in
             Option.bind
               (quantileSelect_at h1 copy idx 0 (int (alength (cells h1 copy)) - 1)) (\<lambda>h2.
               Some (h2, map_sum id QNum (quantileSorted (cells h2 copy) p0)))))"


text \<open>A store that holds one array, the list \<open>xs\<close>, at reference 0.\<close>

definition store_of :: "real list \<Rightarrow> store" where
  "store_of xs = \<lparr>cells = (\<lambda>r. arr_of_list xs), nxt = 1\<rparr>"


section \<open>K-means clustering\<close>

text \<open>
  A coordinate of a centroid is a number or NaN (\<open>None\<close>): a point that is shorter than
  the first point contributes \<^verbatim>\<open>undefined\<close> to a sum. Arithmetic with NaN gives NaN.
\<close>

type_synonym coord = "real option"

definition cadd :: "coord \<Rightarrow> coord \<Rightarrow> coord" where
  "cadd a b = (case (a, b) of (Some u, Some v) \<Rightarrow> Some (u + v) | _ \<Rightarrow> None)"

definition csub :: "coord \<Rightarrow> coord \<Rightarrow> coord" where
  "csub a b = (case (a, b) of (Some u, Some v) \<Rightarrow> Some (u - v) | _ \<Rightarrow> None)"

definition cmul :: "coord \<Rightarrow> coord \<Rightarrow> coord" where
  "cmul a b = (case (a, b) of (Some u, Some v) \<Rightarrow> Some (u * v) | _ \<Rightarrow> None)"

text \<open>\<^verbatim>\<open>xs[i]\<close> inside an arithmetic expression: \<^verbatim>\<open>undefined\<close> counts as NaN.\<close>

definition cnth :: "coord list \<Rightarrow> nat \<Rightarrow> coord" where
  "cnth xs i = (if i < length xs then xs ! i else None)"

fun euclid_sum :: "coord list \<Rightarrow> coord list \<Rightarrow> nat \<Rightarrow> coord \<Rightarrow> coord" where
  "euclid_sum [] right i sm = sm"
| "euclid_sum (li # ls) right i sm =
     (let diff = csub li (cnth right i) in euclid_sum ls right (Suc i) (cadd sm (cmul diff diff)))"

text \<open>
  \<^verbatim>\<open>euclideanDistance(left, right)\<close>; \<open>right\<close> is \<open>None\<close> when the caller passes
  \<^verbatim>\<open>undefined\<close>, and reading its first coordinate is then a TypeError.
\<close>

definition euclideanDistance :: "coord list \<Rightarrow> coord list option \<Rightarrow> error + coord" where
  "euclideanDistance left right =
     (case left of
        [] \<Rightarrow> Inr (Some 0)
      | _ # _ \<Rightarrow>
          (case right of
             None \<Rightarrow> Inl TypeError
           | Some r \<Rightarrow> Inr (map_option sqrt (euclid_sum left r 0 (Some 0)))))"

text \<open>
  \<^verbatim>\<open>labelPoints\<close>. The running minimum starts at \<^verbatim>\<open>Number.MAX_VALUE\<close>, which every
  distance is below.
\<close>

datatype bound = MaxValue | Dist real

definition below :: "coord \<Rightarrow> bound \<Rightarrow> bool" where
  "below dst minDist =
     (case dst of
        None \<Rightarrow> False
      | Some d \<Rightarrow> (case minDist of MaxValue \<Rightarrow> True | Dist m \<Rightarrow> d < m))"

fun label_loop :: "coord list \<Rightarrow> coord list option list \<Rightarrow> nat \<Rightarrow> bound \<Rightarrow> int \<Rightarrow> error + int" where
  "label_loop p [] i minDist lbl = Inr lbl"
| "label_loop p (c # cs) i minDist lbl =
     (case euclideanDistance p c of
        Inl e \<Rightarrow> Inl e
      | Inr dst \<Rightarrow>
          (if below dst minDist
           then label_loop p cs (Suc i) (case dst of None \<Rightarrow> minDist | Some d \<Rightarrow> Dist d) (int i)
           else label_loop p cs (Suc i) minDist lbl))"

fun labelPoints :: "real list list \<Rightarrow> coord list option list \<Rightarrow> error + int list" where
  "labelPoints [] centroids = Inr []"
| "labelPoints (p # ps) centroids =
     (case label_loop (map Some p) centroids 0 MaxValue (- 1) of
        Inl e \<Rightarrow> Inl e
      | Inr lbl \<Rightarrow>
          (case labelPoints ps centroids of Inl e \<Rightarrow> Inl e | Inr lbls \<Rightarrow> Inr (lbl # lbls)))"

text \<open>
  \<^verbatim>\<open>calculateCentroids\<close>, first loop: the sums and the counts. A label that is no index
  of \<^verbatim>\<open>centroids\<close> makes \<^verbatim>\<open>current[j]\<close> a TypeError, unless the dimension is 0 and the
  inner loop does not run; the count then goes to a property that is never read.
\<close>

definition add_point :: "coord list \<Rightarrow> real list \<Rightarrow> coord list" where
  "add_point current point = map (\<lambda>j. cadd (current ! j) (cnth (map Some point) j)) [0 ..< length current]"

fun accumulate ::
  "real list list \<Rightarrow> int option list \<Rightarrow> nat \<Rightarrow> coord list list \<Rightarrow> nat list
     \<Rightarrow> error + coord list list \<times> nat list" where
  "accumulate [] labels dimension centroids counts = Inr (centroids, counts)"
| "accumulate (point # points) labels dimension centroids counts =
     (case (case labels of [] \<Rightarrow> None | l # _ \<Rightarrow> l) of
        Some lbl \<Rightarrow>
          (if 0 \<le> lbl \<and> nat lbl < length centroids then
             accumulate points (tl labels) dimension
               (centroids[nat lbl := add_point (centroids ! nat lbl) point])
               (counts[nat lbl := counts ! nat lbl + 1])
           else if dimension = 0 then accumulate points (tl labels) dimension centroids counts
           else Inl TypeError)
      | None \<Rightarrow>
          (if dimension = 0 then accumulate points (tl labels) dimension centroids counts
           else Inl TypeError))"

text \<open>Second loop: a centroid without points is the error, the others are divided by their counts.\<close>

fun rescale :: "nat \<Rightarrow> coord list list \<Rightarrow> nat list \<Rightarrow> error + coord list list" where
  "rescale i [] counts = Inr []"
| "rescale i (centroid # centroids) counts =
     (case counts of
        [] \<Rightarrow> Inl TypeError
      | n # ns \<Rightarrow>
          (if n = 0 then Inl (CentroidNoFriends i)
           else (case rescale (Suc i) centroids ns of
                   Inl e \<Rightarrow> Inl e
                 | Inr rest \<Rightarrow> Inr (map (map_option (\<lambda>v. v / of_nat n)) centroid # rest))))"

definition makeMatrix :: "nat \<Rightarrow> nat \<Rightarrow> coord list list" where
  "makeMatrix columns rows = replicate columns (replicate rows (Some 0))"

definition calculateCentroids :: "real list list \<Rightarrow> int list \<Rightarrow> nat \<Rightarrow> error + coord list list" where
  "calculateCentroids points labels numCluster =
     (case points of
        [] \<Rightarrow> Inl TypeError
      | p0 # _ \<Rightarrow>
          (let dimension = length p0;
               centroids = makeMatrix numCluster dimension;
               counts = replicate numCluster 0
           in (case accumulate points (map Some labels @ replicate (length points - length labels) None)
                       dimension centroids counts of
                 Inl e \<Rightarrow> Inl e
               | Inr (totals, counts') \<Rightarrow> rescale 0 totals counts')))"

text \<open>\<^verbatim>\<open>calculateChange(left, right)\<close>: \<open>right\<close> may be shorter than \<open>left\<close> or have holes.\<close>

fun change_loop :: "coord list list \<Rightarrow> coord list option list \<Rightarrow> coord \<Rightarrow> error + coord" where
  "change_loop [] right tot = Inr tot"
| "change_loop (l # ls) right tot =
     (case euclideanDistance l (case right of [] \<Rightarrow> None | r # _ \<Rightarrow> r) of
        Inl e \<Rightarrow> Inl e
      | Inr d \<Rightarrow> change_loop ls (tl right) (cadd tot d))"

definition calculateChange :: "coord list list \<Rightarrow> coord list option list \<Rightarrow> error + coord" where
  "calculateChange left right = change_loop left right (Some 0)"

text \<open>
  \<^verbatim>\<open>sample(x, n, randomSource)\<close>: the first \<open>n\<close> elements of a shuffled copy; an element
  is \<open>None\<close> where the shuffle left a hole.
\<close>

definition sample_js :: "'a list \<Rightarrow> nat \<Rightarrow> (nat \<Rightarrow> real) \<Rightarrow> 'a option list" where
  "sample_js x n rnd = aslice (fst (shuffleInPlace (arr_of_list x) rnd 0)) 0 n"

text \<open>
  The loop \<^verbatim>\<open>while (change !== 0)\<close> of \<^verbatim>\<open>kMeansCluster\<close>; the result is \<open>None\<close> when it does
  not end. The first test of the loop is true, \<^verbatim>\<open>change\<close> being \<^verbatim>\<open>Number.MAX_VALUE\<close>.
\<close>

partial_function (option) kmeans_loop ::
  "real list list \<Rightarrow> nat \<Rightarrow> coord list option list \<Rightarrow> (error + int list \<times> coord list list) option" where
  "kmeans_loop points numCluster centroids =
     (case labelPoints points centroids of
        Inl e \<Rightarrow> Some (Inl e)
      | Inr labels \<Rightarrow>
          (case calculateCentroids points labels numCluster of
             Inl e \<Rightarrow> Some (Inl e)
           | Inr newCentroids \<Rightarrow>
               (case calculateChange newCentroids centroids of
                  Inl e \<Rightarrow> Some (Inl e)
                | Inr change \<Rightarrow>
                    (if change \<noteq> Some 0 then kmeans_loop points numCluster (map Some newCentroids)
                     else Some (Inr (labels, newCentroids))))))"

declare kmeans_loop.simps [code]

definition kMeansCluster ::
  "real list list \<Rightarrow> nat \<Rightarrow> (nat \<Rightarrow> real) \<Rightarrow> (error + int list \<times> coord list list) option" where
  "kMeansCluster points numCluster rnd =
     kmeans_loop points numCluster (map (map_option (map Some)) (sample_js points numCluster rnd))"

text \<open>
  The notions the steps of the iteration are measured against: the Euclidean distance
  between a point and a centroid of at least its dimension, and the sum of coordinate \<open>j\<close>
  over the points that carry the label \<open>i\<close>.
\<close>

definition euclid :: "real list \<Rightarrow> real list \<Rightarrow> real" where
  "euclid p c = sqrt (\<Sum>j<length p. (p ! j - c ! j)\<^sup>2)"

definition group_sum :: "real list list \<Rightarrow> int list \<Rightarrow> nat \<Rightarrow> nat \<Rightarrow> real" where
  "group_sum points labels i j =
     sum_list (map (\<lambda>(p, l). if l = int i then p ! j else 0) (zip points labels))"

text \<open>
  What \<^verbatim>\<open>labelPoints\<close> has found after the first \<open>i\<close> centroids: nothing yet, or the first
  centroid among them at the least distance.
\<close>

definition nearest_so_far :: "real list \<Rightarrow> real list list \<Rightarrow> nat \<Rightarrow> bound \<Rightarrow> int \<Rightarrow> bool" where
  "nearest_so_far p cs i minDist lbl =
     (case minDist of
        MaxValue \<Rightarrow> i = 0 \<and> lbl = - 1
      | Dist m \<Rightarrow> 0 \<le> lbl \<and> nat lbl < i \<and> m = euclid p (cs ! nat lbl) \<and>
                  (\<forall>i'<i. m \<le> euclid p (cs ! i')) \<and>
                  (\<forall>i'<nat lbl. m < euclid p (cs ! i')))"


section \<open>Chi-squared goodness of fit\<close>

text \<open>
  The table of critical values: for each number of degrees of freedom in the table, the
  critical value for each significance level in the table.
\<close>

definition chiSquaredDistributionTable :: "(nat \<times> (real \<times> real) list) list" where
  "chiSquaredDistributionTable =
   [
    (1, [(0.995, 0), (0.99, 0), (0.975, 0), (0.95, 0), (0.9, 0.02), (0.5, 0.45), (0.1, 2.71), (0.05, 3.84), (0.025, 5.02), (0.01, 6.63), (0.005, 7.88)]),
    (2, [(0.995, 0.01), (0.99, 0.02), (0.975, 0.05), (0.95, 0.1), (0.9, 0.21), (0.5, 1.39), (0.1, 4.61), (0.05, 5.99), (0.025, 7.38), (0.01, 9.21), (0.005, 10.6)]),
    (3, [(0.995, 0.07), (0.99, 0.11), (0.975, 0.22), (0.95, 0.35), (0.9, 0.58), (0.5, 2.37), (0.1, 6.25), (0.05, 7.81), (0.025, 9.35), (0.01, 11.34), (0.005, 12.84)]),
    (4, [(0.995, 0.21), (0.99, 0.3), (0.975, 0.48), (0.95, 0.71), (0.9, 1.06), (0.5, 3.36), (0.1, 7.78), (0.05, 9.49), (0.025, 11.14), (0.01, 13.28), (0.005, 14.86)]),
    (5, [(0.995, 0.41), (0.99, 0.55), (0.975, 0.83), (0.95, 1.15), (0.9, 1.61), (0.5, 4.35), (0.1, 9.24), (0.05, 11.07), (0.025, 12.83), (0.01, 15.09), (0.005, 16.75)]),
    (6, [(0.995, 0.68), (0.99, 0.87), (0.975, 1.24), (0.95, 1.64), (0.9, 2.2), (0.5, 5.35), (0.1, 10.65), (0.05, 12.59), (0.025, 14.45), (0.01, 16.81), (0.005, 18.55)]),
    (7, [(0.995, 0.99), (0.99, 1.25), (0.975, 1.69), (0.95, 2.17), (0.9, 2.83), (0.5, 6.35), (0.1, 12.02), (0.05, 14.07), (0.025, 16.01), (0.01, 18.48), (0.005, 20.28)]),
    (8, [(0.995, 1.34), (0.99, 1.65), (0.975, 2.18), (0.95, 2.73), (0.9, 3.49), (0.5, 7.34), (0.1, 13.36), (0.05, 15.51), (0.025, 17.53), (0.01, 20.09), (0.005, 21.96)]),
    (9, [(0.995, 1.73), (0.99, 2.09), (0.975, 2.7), (0.95, 3.33), (0.9, 4.17), (0.5, 8.34), (0.1, 14.68), (0.05, 16.92), (0.025, 19.02), (0.01, 21.67), (0.005, 23.59)]),
    (10, [(0.995, 2.16), (0.99, 2.56), (0.975, 3.25), (0.95, 3.94), (0.9, 4.87), (0.5, 9.34), (0.1, 15.99), (0.05, 18.31), (0.025, 20.48), (0.01, 23.21), (0.005, 25.19)]),
    (11, [(0.995, 2.6), (0.99, 3.05), (0.975, 3.82), (0.95, 4.57), (0.9, 5.58), (0.5, 10.34), (0.1, 17.28), (0.05, 19.68), (0.025, 21.92), (0.01, 24.72), (0.005, 26.76)]),
    (12, [(0.995, 3.07), (0.99, 3.57), (0.975, 4.4), (0.95, 5.23), (0.9, 6.3), (0.5, 11.34), (0.1, 18.55), (0.05, 21.03), (0.025, 23.34), (0.01, 26.22), (0.005, 28.3)]),
    (13, [(0.995, 3.57), (0.99, 4.11), (0.975, 5.01), (0.95, 5.89), (0.9, 7.04), (0.5, 12.34), (0.1, 19.81), (0.05, 22.36), (0.025, 24.74), (0.01, 27.69), (0.005, 29.82)]),
    (14, [(0.995, 4.07), (0.99, 4.66), (0.975, 5.63), (0.95, 6.57), (0.9, 7.79), (0.5, 13.34), (0.1, 21.06), (0.05, 23.68), (0.025, 26.12), (0.01, 29.14), (0.005, 31.32)]),
    (15, [(0.995, 4.6), (0.99, 5.23), (0.975, 6.27), (0.95, 7.26), (0.9, 8.55), (0.5, 14.34), (0.1, 22.31), (0.05, 25), (0.025, 27.49), (0.01, 30.58), (0.005, 32.8)]),
    (16, [(0.995, 5.14), (0.99, 5.81), (0.975, 6.91), (0.95, 7.96), (0.9, 9.31), (0.5, 15.34), (0.1, 23.54), (0.05, 26.3), (0.025, 28.85), (0.01, 32), (0.005, 34.27)]),
    (17, [(0.995, 5.7), (0.99, 6.41), (0.975, 7.56), (0.95, 8.67), (0.9, 10.09), (0.5, 16.34), (0.1, 24.77), (0.05, 27.59), (0.025, 30.19), (0.01, 33.41), (0.005, 35.72)]),
    (18, [(0.995, 6.26), (0.99, 7.01), (0.975, 8.23), (0.95, 9.39), (0.9, 10.87), (0.5, 17.34), (0.1, 25.99), (0.05, 28.87), (0.025, 31.53), (0.01, 34.81), (0.005, 37.16)]),
    (19, [(0.995, 6.84), (0.99, 7.63), (0.975, 8.91), (0.95, 10.12), (0.9, 11.65), (0.5, 18.34), (0.1, 27.2), (0.05, 30.14), (0.025, 32.85), (0.01, 36.19), (0.005, 38.58)]),
    (20, [(0.995, 7.43), (0.99, 8.26), (0.975, 9.59), (0.95, 10.85), (0.9, 12.44), (0.5, 19.34), (0.1, 28.41), (0.05, 31.41), (0.025, 34.17), (0.01, 37.57), (0.005, 40)]),
    (21, [(0.995, 8.03), (0.99, 8.9), (0.975, 10.28), (0.95, 11.59), (0.9, 13.24), (0.5, 20.34), (0.1, 29.62), (0.05, 32.67), (0.025, 35.48), (0.01, 38.93), (0.005, 41.4)]),
    (22, [(0.995, 8.64), (0.99, 9.54), (0.975, 10.98), (0.95, 12.34), (0.9, 14.04), (0.5, 21.34), (0.1, 30.81), (0.05, 33.92), (0.025, 36.78), (0.01, 40.29), (0.005, 42.8)]),
    (23, [(0.995, 9.26), (0.99, 10.2), (0.975, 11.69), (0.95, 13.09), (0.9, 14.85), (0.5, 22.34), (0.1, 32.01), (0.05, 35.17), (0.025, 38.08), (0.01, 41.64), (0.005, 44.18)]),
    (24, [(0.995, 9.89), (0.99, 10.86), (0.975, 12.4), (0.95, 13.85), (0.9, 15.66), (0.5, 23.34), (0.1, 33.2), (0.05, 36.42), (0.025, 39.36), (0.01, 42.98), (0.005, 45.56)]),
    (25, [(0.995, 10.52), (0.99, 11.52), (0.975, 13.12), (0.95, 14.61), (0.9, 16.47), (0.5, 24.34), (0.1, 34.28), (0.05, 37.65), (0.025, 40.65), (0.01, 44.31), (0.005, 46.93)]),
    (26, [(0.995, 11.16), (0.99, 12.2), (0.975, 13.84), (0.95, 15.38), (0.9, 17.29), (0.5, 25.34), (0.1, 35.56), (0.05, 38.89), (0.025, 41.92), (0.01, 45.64), (0.005, 48.29)]),
    (27, [(0.995, 11.81), (0.99, 12.88), (0.975, 14.57), (0.95, 16.15), (0.9, 18.11), (0.5, 26.34), (0.1, 36.74), (0.05, 40.11), (0.025, 43.19), (0.01, 46.96), (0.005, 49.65)]),
    (28, [(0.995, 12.46), (0.99, 13.57), (0.975, 15.31), (0.95, 16.93), (0.9, 18.94), (0.5, 27.34), (0.1, 37.92), (0.05, 41.34), (0.025, 44.46), (0.01, 48.28), (0.005, 50.99)]),
    (29, [(0.995, 13.12), (0.99, 14.26), (0.975, 16.05), (0.95, 17.71), (0.9, 19.77), (0.5, 28.34), (0.1, 39.09), (0.05, 42.56), (0.025, 45.72), (0.01, 49.59), (0.005, 52.34)]),
    (30, [(0.995, 13.79), (0.99, 14.95), (0.975, 16.79), (0.95, 18.49), (0.9, 20.6), (0.5, 29.34), (0.1, 40.26), (0.05, 43.77), (0.025, 46.98), (0.01, 50.89), (0.005, 53.67)]),
    (40, [(0.995, 20.71), (0.99, 22.16), (0.975, 24.43), (0.95, 26.51), (0.9, 29.05), (0.5, 39.34), (0.1, 51.81), (0.05, 55.76), (0.025, 59.34), (0.01, 63.69), (0.005, 66.77)]),
    (50, [(0.995, 27.99), (0.99, 29.71), (0.975, 32.36), (0.95, 34.76), (0.9, 37.69), (0.5, 49.33), (0.1, 63.17), (0.05, 67.5), (0.025, 71.42), (0.01, 76.15), (0.005, 79.49)]),
    (60, [(0.995, 35.53), (0.99, 37.48), (0.975, 40.48), (0.95, 43.19), (0.9, 46.46), (0.5, 59.33), (0.1, 74.4), (0.05, 79.08), (0.025, 83.3), (0.01, 88.38), (0.005, 91.95)]),
    (70, [(0.995, 43.28), (0.99, 45.44), (0.975, 48.76), (0.95, 51.74), (0.9, 55.33), (0.5, 69.33), (0.1, 85.53), (0.05, 90.53), (0.025, 95.02), (0.01, 100.42), (0.005, 104.22)]),
    (80, [(0.995, 51.17), (0.99, 53.54), (0.975, 57.15), (0.95, 60.39), (0.9, 64.28), (0.5, 79.33), (0.1, 96.58), (0.05, 101.88), (0.025, 106.63), (0.01, 112.33), (0.005, 116.32)]),
    (90, [(0.995, 59.2), (0.99, 61.75), (0.975, 65.65), (0.95, 69.13), (0.9, 73.29), (0.5, 89.33), (0.1, 107.57), (0.05, 113.14), (0.025, 118.14), (0.01, 124.12), (0.005, 128.3)]),
    (100, [(0.995, 67.33), (0.99, 70.06), (0.975, 74.22), (0.95, 77.93), (0.9, 82.36), (0.5, 99.33), (0.1, 118.5), (0.05, 124.34), (0.025, 129.56), (0.01, 135.81), (0.005, 140.17)])
   ]"

text \<open>
  The sample holds counts (natural numbers), which index the histogram. First loop:
  \<^verbatim>\<open>observedFrequencies[data[i]]\<close> is set to 0 when it is \<^verbatim>\<open>undefined\<close> (a hole, \<open>None\<close>, or
  beyond the end) and then incremented. Second loop: the holes become 0.
\<close>

definition hist_add :: "nat option list \<Rightarrow> nat \<Rightarrow> nat option list" where
  "hist_add observedFrequencies v =
     (let obs = (if v < length observedFrequencies then observedFrequencies
                 else observedFrequencies @ replicate (v - length observedFrequencies) None @ [Some 0])
      in obs[v := Some (case obs ! v of None \<Rightarrow> 1 | Some n \<Rightarrow> n + 1)])"

definition observed_histogram :: "nat list \<Rightarrow> nat list" where
  "observed_histogram data =
     map (\<lambda>f. case f of None \<Rightarrow> 0 | Some n \<Rightarrow> n) (foldl hist_add [] data)"

text \<open>
  Third loop: the expected count of class \<open>k\<close> for every index \<open>k\<close> of the hypothesized
  distribution that is also an index of the observed histogram. A distribution function
  that returns \<^verbatim>\<open>undefined\<close> (\<open>None\<close>) gives no expected counts.
\<close>

definition expected_histogram :: "real list option \<Rightarrow> nat \<Rightarrow> nat \<Rightarrow> real list" where
  "expected_histogram hypothesizedDistribution observedLength dataLength =
     (case hypothesizedDistribution of
        None \<Rightarrow> []
      | Some pmf \<Rightarrow>
          map (\<lambda>k. pmf ! k * of_nat dataLength)
            (filter (\<lambda>k. k < observedLength) [0 ..< length pmf]))"

text \<open>
  Fourth loop, for \<open>k\<close> from the last index of the expected counts down to 0; the first
  argument is \<open>k + 1\<close>. The class \<open>k\<close> is added to the class \<open>k - 1\<close> (for \<open>k = 0\<close> the sum
  goes to the property \<open>-1\<close>, which is never read), and \<^verbatim>\<open>pop()\<close> removes the last class of
  each histogram. The index \<open>k\<close> stays below the length of the expected counts, which
  stays at most the length of the observed counts.
\<close>

fun collapse :: "nat \<Rightarrow> real list \<Rightarrow> nat list \<Rightarrow> real list \<times> nat list" where
  "collapse 0 expectedFrequencies observedFrequencies = (expectedFrequencies, observedFrequencies)"
| "collapse (Suc k) expectedFrequencies observedFrequencies =
     (if expectedFrequencies ! k < 3 then
        collapse k
          (butlast (if k = 0 then expectedFrequencies
                    else expectedFrequencies[k - 1 := expectedFrequencies ! (k - 1) + expectedFrequencies ! k]))
          (butlast (if k = 0 then observedFrequencies
                    else observedFrequencies[k - 1 := observedFrequencies ! (k - 1) + observedFrequencies ! k]))
      else collapse k expectedFrequencies observedFrequencies)"

text \<open>Sums that may be infinite or NaN.\<close>

fun js_add :: "jsnum \<Rightarrow> jsnum \<Rightarrow> jsnum" where
  "js_add (Num a) (Num b) = Num (a + b)"
| "js_add NaN _ = NaN"
| "js_add _ NaN = NaN"
| "js_add PosInf NegInf = NaN"
| "js_add NegInf PosInf = NaN"
| "js_add PosInf _ = PosInf"
| "js_add NegInf _ = NegInf"
| "js_add (Num a) PosInf = PosInf"
| "js_add (Num a) NegInf = NegInf"

text \<open>
  Fifth loop: the statistic. Where the expected counts are shorter than the observed
  ones, \<^verbatim>\<open>expectedFrequencies[k]\<close> is \<^verbatim>\<open>undefined\<close> and the term is NaN.
\<close>

definition chi_term :: "real list \<Rightarrow> nat list \<Rightarrow> nat \<Rightarrow> jsnum" where
  "chi_term expectedFrequencies observedFrequencies k =
     (if k < length expectedFrequencies
      then js_div ((of_nat (observedFrequencies ! k) - expectedFrequencies ! k)\<^sup>2) (expectedFrequencies ! k)
      else NaN)"

definition chi_statistic :: "real list \<Rightarrow> nat list \<Rightarrow> jsnum" where
  "chi_statistic expectedFrequencies observedFrequencies =
     foldl (\<lambda>chiSquared k. js_add chiSquared (chi_term expectedFrequencies observedFrequencies k))
       (Num 0) [0 ..< length observedFrequencies]"

text \<open>
  The look-up \<^verbatim>\<open>chiSquaredDistributionTable[degreesOfFreedom][significance]\<close>: a number of
  degrees of freedom that is not in the table makes the second look-up a TypeError; a
  significance level that is not in the row gives \<^verbatim>\<open>undefined\<close>, and the comparison is false.
\<close>

definition critical_below :: "real option \<Rightarrow> jsnum \<Rightarrow> bool" where
  "critical_below critical chiSquared =
     (case critical of
        None \<Rightarrow> False
      | Some c \<Rightarrow> (case chiSquared of Num v \<Rightarrow> c < v | PosInf \<Rightarrow> True | NegInf \<Rightarrow> False | NaN \<Rightarrow> False))"

definition chiSquaredGoodnessOfFit ::
  "nat list \<Rightarrow> (real \<Rightarrow> real list option) \<Rightarrow> real \<Rightarrow> error + bool" where
  "chiSquaredGoodnessOfFit data distributionType significance =
     (case mean (map of_nat data) of
        Inl e \<Rightarrow> Inl e
      | Inr inputMean \<Rightarrow>
          (let hypothesizedDistribution = distributionType inputMean;
               observed0 = observed_histogram data;
               expected0 = expected_histogram hypothesizedDistribution (length observed0) (length data);
               (expectedFrequencies, observedFrequencies) = collapse (length expected0) expected0 observed0;
               chiSquared = chi_statistic expectedFrequencies observedFrequencies;
               degreesOfFreedom = int (length observedFrequencies) - 1 - 1
           in if degreesOfFreedom < 0 then Inl TypeError
              else (case map_of chiSquaredDistributionTable (nat degreesOfFreedom) of
                      None \<Rightarrow> Inl TypeError
                    | Some row \<Rightarrow> Inr (critical_below (map_of row significance) chiSquared))))"

text \<open>
  What merging every class with an expected count below 3 into its predecessor gives,
  from the last class down: the class is added to the one before it and removed.
\<close>

fun merge_low :: "nat \<Rightarrow> real list \<Rightarrow> nat list \<Rightarrow> real list \<times> nat list" where
  "merge_low 0 expectedFrequencies observedFrequencies = (expectedFrequencies, observedFrequencies)"
| "merge_low (Suc k) expectedFrequencies observedFrequencies =
     (if 0 < k \<and> expectedFrequencies ! k < 3 then
        merge_low k
          (take k (expectedFrequencies[k - 1 := expectedFrequencies ! (k - 1) + expectedFrequencies ! k]) @
             drop (Suc k) expectedFrequencies)
          (take k (observedFrequencies[k - 1 := observedFrequencies ! (k - 1) + observedFrequencies ! k]) @
             drop (Suc k) observedFrequencies)
      else merge_low k expectedFrequencies observedFrequencies)"

section \<open>Ckmeans: optimal clustering in one dimension\<close>










text \<open>
  \<^verbatim>\<open>fillMatrices\<close>: the cumulative sums of the values shifted by the median, the row 0,
  and then the rows \<open>1, \<dots>, K - 1\<close>; in the last row only the last column is computed.
\<close>

fun cumulative :: "real list \<Rightarrow> real \<Rightarrow> real list" where
  "cumulative [] acc = []"
| "cumulative (v # vs) acc = (acc + v) # cumulative vs (acc + v)"
















section \<open>Properties of factorial and gamma\<close>





section \<open>Properties of the sums and of the two-sample t-test\<close>

lemma sum_loop_eq: "sum_loop s c xs = s + c + sum_list xs"
  by (induction xs arbitrary: s c) (simp_all add: Let_def)

lemma sum_js_eq: "sum_js x = sum_list x"
  by (cases x) (simp_all add: sum_js_def sum_loop_eq)

lemma mean_eq: "x \<noteq> [] \<Longrightarrow> mean x = Inr (sum_list x / of_nat (length x))"
  by (simp add: mean_def sum_js_eq)

lemma foldl_plus_sum_list: "foldl (\<lambda>s xi. s + f xi) a xs = a + sum_list (map f xs)"
  for a :: real
  by (induction xs arbitrary: a) simp_all

lemma sampleVariance_eq:
  "2 \<le> length x \<Longrightarrow>
     sampleVariance x =
       Inr ((\<Sum>xi\<leftarrow>x. (xi - sum_list x / of_nat (length x))\<^sup>2) / (of_nat (length x) - 1))"
proof -
  assume len: "2 \<le> length x"
  then have "x \<noteq> []" by auto
  then show ?thesis
    using len
    by (simp add: sampleVariance_def sumNthPowerDeviations_def mean_eq foldl_plus_sum_list
        power2_eq_square)
qed

text \<open>
  C10. \<^verbatim>\<open>tTestTwoSample\<close> returns \<^verbatim>\<open>null\<close>, without throwing, whenever one of the samples is
  empty; with the difference omitted it computes what it computes for the difference 0, and
  that is the pooled-variance t statistic of the hypothesis that the means are equal.
\<close>

theorem tTestTwoSample_null_and_default:
  "(sampleX = [] \<or> sampleY = [] \<longrightarrow> tTestTwoSample sampleX sampleY difference = Inr None) \<and>
   tTestTwoSample sampleX sampleY None = tTestTwoSample sampleX sampleY (Some 0) \<and>
   (2 \<le> length sampleX \<and> 2 \<le> length sampleY \<longrightarrow>
      tTestTwoSample sampleX sampleY None =
        Inr (Some (js_div
          (sum_list sampleX / of_nat (length sampleX) - sum_list sampleY / of_nat (length sampleY) - 0)
          (sqrt (((\<Sum>xi\<leftarrow>sampleX. (xi - sum_list sampleX / of_nat (length sampleX))\<^sup>2) +
                  (\<Sum>yi\<leftarrow>sampleY. (yi - sum_list sampleY / of_nat (length sampleY))\<^sup>2)) /
                 (of_nat (length sampleX) + of_nat (length sampleY) - 2) *
                 (1 / of_nat (length sampleX) + 1 / of_nat (length sampleY)))))))"
proof (intro conjI impI)
  assume "sampleX = [] \<or> sampleY = []"
  then show "tTestTwoSample sampleX sampleY difference = Inr None"
    by (auto simp: tTestTwoSample_def)
next
  show "tTestTwoSample sampleX sampleY None = tTestTwoSample sampleX sampleY (Some 0)"
    by (simp add: tTestTwoSample_def Let_def)
next
  assume len: "2 \<le> length sampleX \<and> 2 \<le> length sampleY"
  then have ne: "sampleX \<noteq> []" "sampleY \<noteq> []" by auto
  have nx: "(of_nat (length sampleX) - 1 :: real) \<noteq> 0" and ny: "(of_nat (length sampleY) - 1 :: real) \<noteq> 0"
    using len by auto
  show "tTestTwoSample sampleX sampleY None =
        Inr (Some (js_div
          (sum_list sampleX / of_nat (length sampleX) - sum_list sampleY / of_nat (length sampleY) - 0)
          (sqrt (((\<Sum>xi\<leftarrow>sampleX. (xi - sum_list sampleX / of_nat (length sampleX))\<^sup>2) +
                  (\<Sum>yi\<leftarrow>sampleY. (yi - sum_list sampleY / of_nat (length sampleY))\<^sup>2)) /
                 (of_nat (length sampleX) + of_nat (length sampleY) - 2) *
                 (1 / of_nat (length sampleX) + 1 / of_nat (length sampleY))))))"
    using len ne nx ny
    by (simp add: tTestTwoSample_def Let_def mean_eq sampleVariance_eq)
qed

theorem tTestTwoSample_null_and_default_witness:
  "tTestTwoSample [] [1, 2] (Some 3) = Inr None \<and>
   tTestTwoSample [1, 2] [] None = Inr None \<and>
   tTestTwoSample [1, 2, 3, 4] [3, 4, 5, 6] None = Inr (Some (Num (- 2 / sqrt (5 / 6))))"
proof -
  have a: "tTestTwoSample [] [1, 2] (Some 3) = Inr None"
    using tTestTwoSample_null_and_default [of "[]" "[1, 2]" "Some 3"] by simp
  have b: "tTestTwoSample [1, 2] [] None = Inr None"
    using tTestTwoSample_null_and_default [of "[1, 2]" "[]" None] by simp
  have "sqrt (5 / 6 :: real) \<noteq> 0" by simp
  then have c: "tTestTwoSample [1, 2, 3, 4] [3, 4, 5, 6] None = Inr (Some (Num (- 2 / sqrt (5 / 6))))"
    using tTestTwoSample_null_and_default
      [of "[1, 2, 3, 4]" "[3, 4, 5, 6]" None, THEN conjunct2, THEN conjunct2]
    by (simp add: js_div_def power2_eq_square)
  from a b c show ?thesis by simp
qed

section \<open>The selector of the permutation test\<close>

lemma alength_aset: "alength arr \<le> alength (aset arr i v)"
  by (simp add: aset_def)

lemma alength_shuffle_loop: "alength x \<le> alength (fst (shuffle_loop len x rnd c))"
proof (induction len arbitrary: x c)
  case 0
  then show ?case by simp
next
  case (Suc len)
  let ?index = "\<lfloor>rnd c * of_nat (Suc len)\<rfloor>"
  let ?x2 = "aset (aset x (int len) (aget x ?index)) ?index (aget x (int len))"
  have "alength x \<le> alength ?x2"
    using alength_aset le_trans by blast
  also have "\<dots> \<le> alength (fst (shuffle_loop len ?x2 rnd (Suc c)))"
    by (rule Suc.IH)
  finally show ?case by (simp add: Let_def)
qed

lemma length_aslice: "length (aslice arr from to) = min to (alength arr) - from"
  by (simp add: aslice_def)

lemma mean_vals_Inr: "xs \<noteq> [] \<Longrightarrow> \<exists>m. mean_vals xs = Inr m"
  by (simp add: mean_vals_def)

lemma mean_vals_error: "mean_vals xs = Inl e \<Longrightarrow> e = MeanEmpty"
  by (simp add: mean_vals_def split: if_splits)

lemma perm_loop_error: "perm_loop k midIndex allData rnd c = Inl e \<Longrightarrow> e = MeanEmpty"
proof (induction k arbitrary: allData c)
  case 0
  then show ?case by simp
next
  case (Suc k)
  then show ?case
    by (auto simp: Let_def split: prod.splits sum.splits dest: mean_vals_error)
qed

lemma perm_loop_Inr:
  "0 < midIndex \<Longrightarrow> midIndex < alength allData \<Longrightarrow>
     \<exists>dsn. perm_loop k midIndex allData rnd c = Inr dsn"
proof (induction k arbitrary: allData c)
  case 0
  then show ?case by simp
next
  case (Suc k)
  obtain allData' c' where sh: "shuffleInPlace allData rnd c = (allData', c')"
    by (cases "shuffleInPlace allData rnd c")
  have "alength allData \<le> alength allData'"
    using alength_shuffle_loop [of allData "alength allData" rnd c] sh
    by (simp add: shuffleInPlace_def)
  with Suc.prems have len: "midIndex < alength allData'" by simp
  from Suc.prems len have "aslice allData' 0 midIndex \<noteq> []"
    using length_aslice [of allData' 0 midIndex] by (auto simp del: length_0_conv)
  then obtain ml where ml: "mean_vals (aslice allData' 0 midIndex) = Inr ml"
    using mean_vals_Inr by blast
  from len have "aslice allData' midIndex (alength allData') \<noteq> []"
    using length_aslice [of allData' midIndex "alength allData'"] by auto
  then obtain mr where mr: "mean_vals (aslice allData' midIndex (alength allData')) = Inr mr"
    using mean_vals_Inr by blast
  from Suc.IH [OF Suc.prems(1) len] obtain rest
    where "perm_loop k midIndex allData' rnd c' = Inr rest" by blast
  with sh ml mr show ?case by (simp add: Let_def)
qed

lemma mean_error: "mean x = Inl e \<Longrightarrow> e = MeanEmpty"
  by (simp add: mean_def split: if_splits)

text \<open>
  C2, as the code has it. The selector values that \<^verbatim>\<open>permutationTest\<close> accepts are
  \<^verbatim>\<open>"two_side"\<close> (also taken when the selector is left out), \<^verbatim>\<open>"greater"\<close> and \<^verbatim>\<open>"less"\<close>:
  with one of them the selector error is not raised, and the test returns a result for
  two non-empty samples; with any other value the selector error is raised, whatever the
  other arguments are.
\<close>

theorem permutationTest_selector:
  "(alternative \<in> {None, Some ''two_side'', Some ''greater'', Some ''less''} \<longrightarrow>
      permutationTest sampleX sampleY alternative k rnd \<noteq> Inl AlternativeInvalid \<and>
      (sampleX \<noteq> [] \<and> sampleY \<noteq> [] \<longrightarrow>
         (\<exists>p. permutationTest sampleX sampleY alternative k rnd = Inr p))) \<and>
   (alternative \<notin> {None, Some ''two_side'', Some ''greater'', Some ''less''} \<longrightarrow>
      permutationTest sampleX sampleY alternative k rnd = Inl AlternativeInvalid)"
proof (intro conjI impI)
  assume "alternative \<notin> {None, Some ''two_side'', Some ''greater'', Some ''less''}"
  then show "permutationTest sampleX sampleY alternative k rnd = Inl AlternativeInvalid"
    by (cases alternative) (auto simp: permutationTest_def)
next
  assume ok: "alternative \<in> {None, Some ''two_side'', Some ''greater'', Some ''less''}"
  define a where "a = (case alternative of None \<Rightarrow> ''two_side'' | Some s \<Rightarrow> s)"
  from ok have valid: "\<not> (a \<noteq> ''two_side'' \<and> a \<noteq> ''greater'' \<and> a \<noteq> ''less'')"
    by (auto simp: a_def)
  show "permutationTest sampleX sampleY alternative k rnd \<noteq> Inl AlternativeInvalid"
  proof
    assume "permutationTest sampleX sampleY alternative k rnd = Inl AlternativeInvalid"
    with valid have "AlternativeInvalid = MeanEmpty"
      unfolding permutationTest_def Let_def a_def [symmetric]
      by (auto split: sum.splits dest: mean_error perm_loop_error)
    then show False by simp
  qed
  assume "sampleX \<noteq> [] \<and> sampleY \<noteq> []"
  then have ne: "sampleX \<noteq> []" "sampleY \<noteq> []" by simp_all
  let ?allData = "arr_of_list (sampleX @ sampleY)"
  let ?mid = "alength ?allData div 2"
  have len: "2 \<le> alength ?allData"
  proof -
    from ne have "1 \<le> length sampleX" "1 \<le> length sampleY"
      by (simp_all add: Suc_leI)
    then show ?thesis by (simp add: arr_of_list_def)
  qed
  then have "0 < ?mid" "?mid < alength ?allData" by auto
  then obtain dsn where "perm_loop (case k of None \<Rightarrow> 10000 | Some k0 \<Rightarrow> k0) ?mid ?allData rnd 0 = Inr dsn"
    using perm_loop_Inr by blast
  with valid ne show "\<exists>p. permutationTest sampleX sampleY alternative k rnd = Inr p"
    unfolding permutationTest_def Let_def a_def [symmetric]
    by (simp add: mean_def)
qed

theorem permutationTest_selector_witness:
  "permutationTest [1, 2] [3, 4] (Some ''greater'') (Some 2) (\<lambda>c. 0) = Inr (Num 1) \<and>
   permutationTest [1, 2] [3, 4] (Some ''less'') (Some 2) (\<lambda>c. 0) = Inr (Num 0) \<and>
   permutationTest [1, 2] [3, 4] (Some ''two_side'') (Some 2) (\<lambda>c. 0) = Inr (Num (1 / 2)) \<and>
   permutationTest [1, 2] [3, 4] None (Some 2) (\<lambda>c. 0) \<noteq> Inl AlternativeInvalid \<and>
   permutationTest [1, 2] [3, 4] (Some ''two_sided'') (Some 2) (\<lambda>c. 0) = Inl AlternativeInvalid"
proof -
  have a: "permutationTest [1, 2] [3, 4] (Some ''greater'') (Some 2) (\<lambda>c. 0) = Inr (Num 1)"
    by code_simp
  have b: "permutationTest [1, 2] [3, 4] (Some ''less'') (Some 2) (\<lambda>c. 0) = Inr (Num 0)"
    by code_simp
  have c: "permutationTest [1, 2] [3, 4] (Some ''two_side'') (Some 2) (\<lambda>c. 0) = Inr (Num (1 / 2))"
    by code_simp
  have d: "permutationTest [1, 2] [3, 4] None (Some 2) (\<lambda>c. 0) \<noteq> Inl AlternativeInvalid"
    using permutationTest_selector [of None "[1, 2]" "[3, 4]" "Some 2" "\<lambda>c. 0"] by simp
  have e: "permutationTest [1, 2] [3, 4] (Some ''two_sided'') (Some 2) (\<lambda>c. 0) = Inl AlternativeInvalid"
    using permutationTest_selector [of "Some ''two_sided''" "[1, 2]" "[3, 4]" "Some 2" "\<lambda>c. 0"]
    by simp
  from a b c d e show ?thesis by simp
qed

text \<open>
  The selector value \<^verbatim>\<open>"two-sided"\<close> is not accepted: the selector error is raised.
\<close>

theorem permutationTest_two_sided_rejected:
  "permutationTest [1, 2] [3, 4] (Some ''two-sided'') (Some 2) (\<lambda>c. 0) = Inl AlternativeInvalid"
  by (simp add: permutationTest_def)

section \<open>Rank sums with two groups of ties\<close>

text \<open>
  C1. The ranks of both samples together should add up to \<open>n (n + 1) / 2\<close> for the pooled
  length \<open>n\<close>. For the samples \<open>[1, 1]\<close> and \<open>[2, 2]\<close> (\<open>n = 4\<close>, so 10) the two rank sums
  are 5 and 11/2: after the first group of ties the list \<^verbatim>\<open>tiedRanks\<close> is not started
  afresh, so the second group is averaged together with the first.
\<close>

theorem wilcoxonRankSum_two_tie_groups:
  "wilcoxonRankSum [1, 1] [2, 2] = Inr 5 \<and> wilcoxonRankSum [2, 2] [1, 1] = Inr (11 / 2)"
proof -
  have "wilcoxonRankSum [1, 1] [2, 2] = Inr 5" by code_simp
  moreover have "wilcoxonRankSum [2, 2] [1, 1] = Inr (11 / 2)" by code_simp
  ultimately show ?thesis by simp
qed

section \<open>The mode of a sample with tied counts\<close>

text \<open>
  C4. In \<open>[0, 0, 1, 1]\<close> the values 0 and 1 both occur twice, and the mode should be the one
  seen last in sorted order, 1. \<^verbatim>\<open>mode\<close>, \<^verbatim>\<open>modeSorted\<close> and \<^verbatim>\<open>modeFast\<close> all return 0: a
  later value replaces the running mode only when its count is strictly greater.
\<close>

theorem mode_tie_returns_first:
  "mode [0, 0, 1, 1] = Inr (Num 0) \<and> modeSorted [0, 0, 1, 1] = Inr (Num 0) \<and>
   modeFast [0, 0, 1, 1] = Inr (Some 0)"
proof -
  have "mode [0, 0, 1, 1] = Inr (Num 0)" by code_simp
  moreover have "modeSorted [0, 0, 1, 1] = Inr (Num 0)" by code_simp
  moreover have "modeFast [0, 0, 1, 1] = Inr (Some 0)" by code_simp
  ultimately show ?thesis by simp
qed

section \<open>Quantiles of a sorted sample\<close>









section \<open>The caller's array is not touched by quantile\<close>

lemma quantileSelect_at_frame:
  "quantileSelect_at h r k left right = Some h' \<Longrightarrow>
     nxt h' = nxt h \<and> (\<forall>a. a \<noteq> r \<longrightarrow> cells h' a = cells h a)"
  by (auto simp: quantileSelect_at_def)

lemma multiQuantileSelect_at_frame:
  "multiQuantileSelect_at h r p = Some h' \<Longrightarrow>
     nxt h' = nxt h \<and> (\<forall>a. a \<noteq> r \<longrightarrow> cells h' a = cells h a)"
  by (auto simp: multiQuantileSelect_at_def)

lemma alloc_frame:
  "alloc h arr = (h1, r) \<Longrightarrow>
     r = nxt h \<and> nxt h1 = Suc (nxt h) \<and> cells h1 r = arr \<and>
     (\<forall>a. a \<noteq> r \<longrightarrow> cells h1 a = cells h a)"
  by (auto simp: alloc_def)

text \<open>
  C9. Whatever \<open>p\<close> is, a number or an array of numbers, when \<^verbatim>\<open>quantile(x, p)\<close> ends (by
  returning or by throwing) the array \<open>x\<close>, and every other array that existed before the
  call, is what it was: the selection rearranges only the copy made on entry.
\<close>

theorem quantile_leaves_input_unchanged:
  assumes "quantile h x p = Some (h', res)" and "x < nxt h"
  shows "cells h' x = cells h x \<and> (\<forall>a < nxt h. cells h' a = cells h a)"
proof -
  obtain h1 copy where al: "alloc h (slice_all (cells h x)) = (h1, copy)"
    by (cases "alloc h (slice_all (cells h x))")
  from alloc_frame [OF al]
  have copy: "copy = nxt h" and old1: "\<forall>a. a \<noteq> copy \<longrightarrow> cells h1 a = cells h a"
    by simp_all
  have "\<exists>h2. (multiQuantileSelect_at h1 copy (case p of PArr ps \<Rightarrow> ps | PNum p0 \<Rightarrow> []) = Some h2 \<or>
             (\<exists>k left right. quantileSelect_at h1 copy k left right = Some h2)) \<and> h' = h2"
    using assms(1) al
    by (cases p) (auto simp: quantile_def Let_def split: Option.bind_splits)
  then have old2: "\<forall>a. a \<noteq> copy \<longrightarrow> cells h' a = cells h1 a"
    using quantileSelect_at_frame multiQuantileSelect_at_frame by blast
  have "cells h' a = cells h a" if "a < nxt h" for a
  proof -
    from that copy have "a \<noteq> copy" by simp
    with old1 old2 show ?thesis by simp
  qed
  with assms(2) show ?thesis by simp
qed

theorem quantile_leaves_input_unchanged_witness:
  "(\<exists>h'. quantile (store_of [10, 2, 5, 100, 2, 1]) 0 (PNum (1 / 2)) =
            Some (h', Inr (QNum (Some (Num (7 / 2))))) \<and>
          cells h' 0 = arr_of_list [10, 2, 5, 100, 2, 1] \<and>
          aslice (cells h' 1) 0 6 = [Some 1, Some 2, Some 2, Some 5, Some 10, Some 100]) \<and>
   (\<exists>h'. quantile (store_of [10, 2, 5, 100, 2, 1]) 0 (PArr [1 / 2, 2]) =
            Some (h', Inl QuantileRange) \<and>
          cells h' 0 = arr_of_list [10, 2, 5, 100, 2, 1])"
proof -
  let ?h = "store_of [10, 2, 5, 100, 2, 1]"
  have x: "0 < nxt ?h" and c: "cells ?h 0 = arr_of_list [10, 2, 5, 100, 2, 1]"
    by (simp_all add: store_of_def)
  have "map_option (\<lambda>(h', r). (r, aslice (cells h' 1) 0 6)) (quantile ?h 0 (PNum (1 / 2))) =
          Some (Inr (QNum (Some (Num (7 / 2)))), [Some 1, Some 2, Some 2, Some 5, Some 10, Some 100])"
    by code_simp
  then obtain h1 where q1: "quantile ?h 0 (PNum (1 / 2)) = Some (h1, Inr (QNum (Some (Num (7 / 2)))))"
    and s1: "aslice (cells h1 1) 0 6 = [Some 1, Some 2, Some 2, Some 5, Some 10, Some 100]"
    by (cases "quantile ?h 0 (PNum (1 / 2))") auto
  from quantile_leaves_input_unchanged [OF q1 x] c
  have f1: "cells h1 0 = arr_of_list [10, 2, 5, 100, 2, 1]" by simp
  have "map_option snd (quantile ?h 0 (PArr [1 / 2, 2])) = Some (Inl QuantileRange)"
    by code_simp
  then obtain h2 where q2: "quantile ?h 0 (PArr [1 / 2, 2]) = Some (h2, Inl QuantileRange)"
    by (cases "quantile ?h 0 (PArr [1 / 2, 2])") auto
  from quantile_leaves_input_unchanged [OF q2 x] c
  have f2: "cells h2 0 = arr_of_list [10, 2, 5, 100, 2, 1]" by simp
  from q1 s1 f1 q2 f2 show ?thesis by blast
qed

section \<open>K-means: starved centroids and the end of the iteration\<close>

lemma length_labelPoints: "labelPoints points cs = Inr labels \<Longrightarrow> length labels = length points"
  by (induction points arbitrary: labels) (auto split: sum.splits)

lemma accumulate_counts:
  "accumulate points labels d centroids counts = Inr (totals, counts') \<Longrightarrow>
   length counts = length centroids \<Longrightarrow>
     length totals = length centroids \<and> length counts' = length counts \<and>
     (\<forall>i<length counts. counts' ! i = counts ! i + count_list (take (length points) labels) (Some (int i)))"
proof (induction points arbitrary: labels centroids counts)
  case Nil
  then show ?case by simp
next
  case (Cons point points)
  show ?case
  proof (cases labels)
    case Nil
    with Cons.prems have "accumulate points [] d centroids counts = Inr (totals, counts')"
      by (simp split: if_splits)
    from Cons.IH [OF this Cons.prems(2)] Nil show ?thesis by simp
  next
    case (Cons l ls)
    show ?thesis
    proof (cases l)
      case None
      with Cons Cons.prems have "accumulate points ls d centroids counts = Inr (totals, counts')"
        by (simp split: if_splits)
      from Cons.IH [OF this Cons.prems(2)] Cons None show ?thesis by simp
    next
      case (Some lbl)
      show ?thesis
      proof (cases "0 \<le> lbl \<and> nat lbl < length centroids")
        case True
        let ?cs = "centroids[nat lbl := add_point (centroids ! nat lbl) point]"
        let ?ns = "counts[nat lbl := counts ! nat lbl + 1]"
        from True Cons Some Cons.prems
        have "accumulate points ls d ?cs ?ns = Inr (totals, counts')" by simp
        moreover have "length ?ns = length ?cs" using Cons.prems(2) by simp
        ultimately have ih: "length totals = length ?cs \<and> length counts' = length ?ns \<and>
          (\<forall>i<length ?ns. counts' ! i = ?ns ! i + count_list (take (length points) ls) (Some (int i)))"
          by (rule Cons.IH)
        show ?thesis
        proof (intro conjI allI impI)
          show "length totals = length centroids" using ih by simp
          show "length counts' = length counts" using ih by simp
          fix i assume i: "i < length counts"
          with ih have "counts' ! i = ?ns ! i + count_list (take (length points) ls) (Some (int i))"
            by simp
          moreover have "?ns ! i = counts ! i + (if int i = lbl then 1 else 0)"
            using i True by (auto simp: nth_list_update)
          ultimately show "counts' ! i = counts ! i +
              count_list (take (length (point # points)) labels) (Some (int i))"
            using Cons Some by auto
        qed
      next
        case False
        with Cons Some Cons.prems have acc: "accumulate points ls d centroids counts = Inr (totals, counts')"
          by (simp split: if_splits)
        have "int i \<noteq> lbl" if "i < length counts" for i
          using False that Cons.prems(2) by auto
        with Cons.IH [OF acc Cons.prems(2)] Cons Some show ?thesis by auto
      qed
    qed
  qed
qed

lemma rescale_result:
  "length counts = length centroids \<Longrightarrow>
     (case rescale i centroids counts of
        Inl e \<Rightarrow> \<exists>j<length counts. counts ! j = 0 \<and> e = CentroidNoFriends (i + j) \<and>
                   (\<forall>j'<j. counts ! j' \<noteq> 0)
      | Inr r \<Rightarrow> (\<forall>j<length counts. counts ! j \<noteq> 0) \<and>
                 r = map2 (\<lambda>c n. map (map_option (\<lambda>v. v / of_nat n)) c) centroids counts)"
proof (induction centroids arbitrary: i counts)
  case Nil
  then show ?case by simp
next
  case (Cons c cs)
  then obtain n ns where counts: "counts = n # ns" and len: "length ns = length cs"
    by (cases counts) auto
  show ?case
  proof (cases "n = 0")
    case True
    with counts show ?thesis by auto
  next
    case False
    from Cons.IH [OF len, of "Suc i"] show ?thesis
    proof (cases "rescale (Suc i) cs ns")
      case (Inl e)
      with Cons.IH [OF len, of "Suc i"] obtain j where j: "j < length ns" "ns ! j = 0"
        "e = CentroidNoFriends (Suc i + j)" "\<forall>j'<j. ns ! j' \<noteq> 0" by auto
      have "\<forall>j'<Suc j. (n # ns) ! j' \<noteq> 0"
        using False j(4) by (auto simp: nth_Cons')
      with j False counts Inl show ?thesis
        by (auto intro!: exI [of _ "Suc j"])
    next
      case (Inr r)
      with Cons.IH [OF len, of "Suc i"] False counts show ?thesis
        by (auto simp: nth_Cons')
    qed
  qed
qed

lemma accumulate_valid:
  "length labels = length points \<Longrightarrow> \<forall>l\<in>set labels. 0 \<le> l \<and> nat l < length centroids \<Longrightarrow>
     \<exists>r. accumulate points (map Some labels) d centroids counts = Inr r"
proof (induction points arbitrary: labels centroids counts)
  case Nil
  then show ?case by simp
next
  case (Cons point points)
  then obtain l ls where labels: "labels = l # ls" by (cases labels) auto
  with Cons.prems have l: "0 \<le> l \<and> nat l < length centroids"
    and ls: "length ls = length points"
    "\<forall>l'\<in>set ls. 0 \<le> l' \<and> nat l' < length (centroids[nat l := add_point (centroids ! nat l) point])"
    by auto
  from Cons.IH [OF ls] l labels show ?case by simp
qed

lemma count_list_0_iff: "count_list xs x = 0 \<longleftrightarrow> x \<notin> set xs"
  by (induction xs) auto

lemma calculateCentroids_Inr:
  assumes "calculateCentroids points labels numCluster = Inr centroids"
  shows "length centroids = numCluster \<and> (\<forall>i<numCluster. int i \<in> set labels)"
proof -
  from assms obtain p0 ps where points: "points = p0 # ps"
    by (cases points) (auto simp: calculateCentroids_def)
  let ?labels = "map Some labels @ replicate (length points - length labels) None"
  from assms points obtain totals counts'
    where acc: "accumulate points ?labels (length p0) (makeMatrix numCluster (length p0))
                  (replicate numCluster 0) = Inr (totals, counts')"
    and res: "rescale 0 totals counts' = Inr centroids"
    by (auto simp: calculateCentroids_def Let_def split: sum.splits)
  have len0: "length (replicate numCluster (0::nat)) = length (makeMatrix numCluster (length p0))"
    by (simp add: makeMatrix_def)
  from accumulate_counts [OF acc len0]
  have lt: "length totals = numCluster" and lc: "length counts' = numCluster"
    and cnt: "\<forall>i<numCluster. counts' ! i = count_list (take (length points) ?labels) (Some (int i))"
    by (simp_all add: makeMatrix_def)
  from lt lc have "length counts' = length totals" by simp
  from rescale_result [OF this, of 0] res
  have nz: "\<forall>j<numCluster. counts' ! j \<noteq> 0"
    and r: "centroids = map2 (\<lambda>c n. map (map_option (\<lambda>v. v / of_nat n)) c) totals counts'"
    using lc by simp_all
  have "int i \<in> set labels" if "i < numCluster" for i
  proof -
    from that nz cnt have "count_list (take (length points) ?labels) (Some (int i)) \<noteq> 0" by simp
    then have "Some (int i) \<in> set (take (length points) ?labels)"
      by (simp add: count_list_0_iff)
    then have "Some (int i) \<in> set ?labels" by (rule in_set_takeD)
    then show ?thesis by auto
  qed
  moreover have "length centroids = numCluster" using r lt lc by simp
  ultimately show ?thesis by simp
qed

lemma calculateCentroids_starved:
  assumes "points \<noteq> []" "length labels = length points"
    and "\<forall>l\<in>set labels. 0 \<le> l \<and> l < int numCluster"
    and "\<exists>i<numCluster. int i \<notin> set labels"
  shows "\<exists>i<numCluster. int i \<notin> set labels \<and>
           calculateCentroids points labels numCluster = Inl (CentroidNoFriends i)"
proof -
  from assms(1) obtain p0 ps where points: "points = p0 # ps" by (cases points) auto
  have valid: "\<forall>l\<in>set labels. 0 \<le> l \<and> nat l < length (makeMatrix numCluster (length p0))"
    using assms(3) by (auto simp: makeMatrix_def)
  from accumulate_valid [OF assms(2) valid] obtain totals counts'
    where acc: "accumulate points (map Some labels) (length p0) (makeMatrix numCluster (length p0))
                  (replicate numCluster 0) = Inr (totals, counts')"
    by fastforce
  have len0: "length (replicate numCluster (0::nat)) = length (makeMatrix numCluster (length p0))"
    by (simp add: makeMatrix_def)
  from accumulate_counts [OF acc len0]
  have lt: "length totals = numCluster" and lc: "length counts' = numCluster"
    and cnt: "\<forall>i<numCluster. counts' ! i = count_list (take (length points) (map Some labels)) (Some (int i))"
    by (simp_all add: makeMatrix_def)
  have cnt': "counts' ! i = 0 \<longleftrightarrow> int i \<notin> set labels" if "i < numCluster" for i
    using cnt that assms(2) by (auto simp: count_list_0_iff)
  from assms(4) cnt' obtain i0 where "i0 < numCluster" "counts' ! i0 = 0" by auto
  from lt lc have "length counts' = length totals" by simp
  from rescale_result [OF this, of 0] \<open>i0 < numCluster\<close> \<open>counts' ! i0 = 0\<close> lc
  obtain j where "j < numCluster" "counts' ! j = 0" "rescale 0 totals counts' = Inl (CentroidNoFriends j)"
    by (cases "rescale 0 totals counts'") auto
  moreover from this cnt' have "int j \<notin> set labels" by simp
  moreover have "calculateCentroids points labels numCluster = rescale 0 totals counts'"
    using acc points assms(2) by (simp add: calculateCentroids_def Let_def)
  ultimately show ?thesis by auto
qed

lemma kmeans_loop_result_aux:
  "kmeans_loop points numCluster cs = Some y \<Longrightarrow> y = Inr (labels, centroids) \<Longrightarrow>
     \<exists>old. labelPoints points old = Inr labels \<and>
           calculateCentroids points labels numCluster = Inr centroids \<and>
           calculateChange centroids old = Inr (Some 0)"
proof (induction arbitrary: labels centroids
    rule: kmeans_loop.raw_induct [rotated 1, consumes 1, case_names step])
  case (step loop points numCluster cs y)
  from step(2,3) obtain lbls where l: "labelPoints points cs = Inr lbls"
    by (auto split: sum.splits)
  from step(2,3) l obtain new where n: "calculateCentroids points lbls numCluster = Inr new"
    by (auto split: sum.splits)
  from step(2,3) l n obtain change where c: "calculateChange new cs = Inr change"
    by (auto split: sum.splits)
  show ?case
  proof (cases "change = Some 0")
    case True
    with step(2,3) l n c have "labels = lbls" "centroids = new" by simp_all
    with l n c True show ?thesis by auto
  next
    case False
    with step(2) l n c have "loop points numCluster (map Some new) = Some y" by simp
    from step(1) [OF this step(3)] show ?thesis .
  qed
qed

lemma kmeans_loop_starved:
  assumes "labelPoints points cs = Inr labels" "points \<noteq> []"
    and "\<forall>l\<in>set labels. 0 \<le> l \<and> l < int numCluster"
    and "\<exists>i<numCluster. int i \<notin> set labels"
  shows "\<exists>i<numCluster. int i \<notin> set labels \<and>
           kmeans_loop points numCluster cs = Some (Inl (CentroidNoFriends i))"
proof -
  from calculateCentroids_starved [OF assms(2) length_labelPoints [OF assms(1)] assms(3,4)]
  obtain i where "i < numCluster" "int i \<notin> set labels"
    "calculateCentroids points labels numCluster = Inl (CentroidNoFriends i)" by blast
  with assms(1) show ?thesis
    by (subst kmeans_loop.simps) auto
qed

lemma add_point_Some:
  assumes "current = map (\<lambda>j. Some (f j)) [0 ..< d]" "length point = d"
  shows "add_point current point = map (\<lambda>j. Some (f j + point ! j)) [0 ..< d]"
  using assms by (auto simp: add_point_def cadd_def cnth_def)

lemma accumulate_sums:
  "accumulate points (map Some labels) d centroids counts = Inr (totals, counts') \<Longrightarrow>
   length labels = length points \<Longrightarrow> \<forall>p\<in>set points. length p = d \<Longrightarrow>
   \<forall>l\<in>set labels. 0 \<le> l \<and> nat l < length centroids \<Longrightarrow>
   \<forall>i<length centroids. centroids ! i = map (\<lambda>j. Some (a i j)) [0 ..< d] \<Longrightarrow>
     \<forall>i<length centroids. totals ! i = map (\<lambda>j. Some (a i j + group_sum points labels i j)) [0 ..< d]"
proof (induction points arbitrary: labels centroids counts a)
  case Nil
  then show ?case by (simp add: group_sum_def)
next
  case (Cons point points)
  then obtain l ls where labels: "labels = l # ls" by (cases labels) auto
  from Cons.prems labels have l: "0 \<le> l" "nat l < length centroids" by simp_all
  let ?cs = "centroids[nat l := add_point (centroids ! nat l) point]"
  let ?a = "\<lambda>i j. a i j + (if int i = l then point ! j else 0)"
  from Cons.prems(1) labels l
  have acc: "accumulate points (map Some ls) d ?cs (counts[nat l := counts ! nat l + 1]) = Inr (totals, counts')"
    by simp
  have len: "length ls = length points" using Cons.prems(2) labels by simp
  have rect: "\<forall>p\<in>set points. length p = d" using Cons.prems(3) by simp
  have valid: "\<forall>l'\<in>set ls. 0 \<le> l' \<and> nat l' < length ?cs" using Cons.prems(4) labels by simp
  have inv: "\<forall>i<length ?cs. ?cs ! i = map (\<lambda>j. Some (?a i j)) [0 ..< d]"
  proof (intro allI impI)
    fix i assume i: "i < length ?cs"
    show "?cs ! i = map (\<lambda>j. Some (?a i j)) [0 ..< d]"
    proof (cases "i = nat l")
      case True
      have "add_point (centroids ! nat l) point = map (\<lambda>j. Some (a (nat l) j + point ! j)) [0 ..< d]"
        using Cons.prems(3,5) l by (intro add_point_Some) simp_all
      with True l show ?thesis by simp
    next
      case False
      then have "int i \<noteq> l" using l by auto
      with False i Cons.prems(5) show ?thesis by simp
    qed
  qed
  from Cons.IH [OF acc len rect valid inv]
  have "\<forall>i<length centroids. totals ! i = map (\<lambda>j. Some (?a i j + group_sum points ls i j)) [0 ..< d]"
    by simp
  moreover have "?a i j + group_sum points ls i j = a i j + group_sum (point # points) labels i j" for i j
    by (simp add: group_sum_def labels)
  ultimately show ?case by simp
qed

lemma calculateCentroids_means:
  assumes "calculateCentroids points labels numCluster = Inr centroids"
    and "length labels = length points" and "\<forall>p\<in>set points. length p = d"
    and "\<forall>l\<in>set labels. 0 \<le> l \<and> l < int numCluster"
  shows "\<forall>i<numCluster. centroids ! i =
           map (\<lambda>j. Some (group_sum points labels i j / of_nat (count_list labels (int i)))) [0 ..< d]"
proof -
  from assms(1) obtain p0 ps where points: "points = p0 # ps"
    by (cases points) (auto simp: calculateCentroids_def)
  with assms(3) have d: "length p0 = d" by simp
  from assms(1,2) points d obtain totals counts'
    where acc: "accumulate points (map Some labels) d (makeMatrix numCluster d)
                  (replicate numCluster 0) = Inr (totals, counts')"
    and res: "rescale 0 totals counts' = Inr centroids"
    by (auto simp: calculateCentroids_def Let_def split: sum.splits)
  have len0: "length (replicate numCluster (0::nat)) = length (makeMatrix numCluster d)"
    by (simp add: makeMatrix_def)
  from accumulate_counts [OF acc len0] assms(2)
  have lt: "length totals = numCluster" and lc: "length counts' = numCluster"
    and cnt: "\<forall>i<numCluster. counts' ! i = count_list (map Some labels) (Some (int i))"
    by (simp_all add: makeMatrix_def)
  have cnt': "count_list (map Some labels) (Some x) = count_list labels x" for x :: int
    by (induction labels) auto
  have valid: "\<forall>l\<in>set labels. 0 \<le> l \<and> nat l < length (makeMatrix numCluster d)"
    using assms(4) by (auto simp: makeMatrix_def)
  have init: "\<forall>i<length (makeMatrix numCluster d). makeMatrix numCluster d ! i = map (\<lambda>j. Some 0) [0 ..< d]"
    by (simp add: makeMatrix_def map_replicate_const)
  from accumulate_sums [OF acc assms(2,3) valid, of "\<lambda>i j. 0"] init
  have tot: "\<forall>i<numCluster. totals ! i = map (\<lambda>j. Some (group_sum points labels i j)) [0 ..< d]"
    by (simp add: makeMatrix_def)
  from lt lc have "length counts' = length totals" by simp
  from rescale_result [OF this, of 0] res
  have r: "centroids = map2 (\<lambda>c n. map (map_option (\<lambda>v. v / of_nat n)) c) totals counts'"
    by simp
  show ?thesis
  proof (intro allI impI)
    fix i assume i: "i < numCluster"
    with r lt lc have "centroids ! i = map (map_option (\<lambda>v. v / of_nat (counts' ! i))) (totals ! i)"
      by simp
    with i tot cnt cnt' show "centroids ! i =
        map (\<lambda>j. Some (group_sum points labels i j / of_nat (count_list labels (int i)))) [0 ..< d]"
      by simp
  qed
qed

lemma euclid_sum_Some:
  "i + length ls \<le> length c \<Longrightarrow>
     euclid_sum (map Some ls) (map Some c) i (Some s) =
       Some (s + (\<Sum>j<length ls. (ls ! j - c ! (i + j))\<^sup>2))"
proof (induction ls arbitrary: i s)
  case Nil
  then show ?case by simp
next
  case (Cons l ls)
  have "i < length c" using Cons.prems by simp
  then have "euclid_sum (map Some (l # ls)) (map Some c) i (Some s) =
        euclid_sum (map Some ls) (map Some c) (Suc i) (Some (s + (l - c ! i) * (l - c ! i)))"
    by (simp add: csub_def cnth_def cmul_def cadd_def)
  also have "\<dots> = Some (s + (l - c ! i) * (l - c ! i) + (\<Sum>j<length ls. (ls ! j - c ! (Suc i + j))\<^sup>2))"
    using Cons.prems by (intro Cons.IH) simp
  also have "(\<Sum>j<length (l # ls). ((l # ls) ! j - c ! (i + j))\<^sup>2) =
        (l - c ! i)\<^sup>2 + (\<Sum>j<length ls. (ls ! j - c ! (Suc i + j))\<^sup>2)"
    by (simp add: sum.lessThan_Suc_shift del: sum.lessThan_Suc)
  then have "s + (l - c ! i) * (l - c ! i) + (\<Sum>j<length ls. (ls ! j - c ! (Suc i + j))\<^sup>2) =
        s + (\<Sum>j<length (l # ls). ((l # ls) ! j - c ! (i + j))\<^sup>2)"
    by (simp add: power2_eq_square)
  finally show ?case .
qed

lemma euclideanDistance_euclid:
  "length p \<le> length c \<Longrightarrow>
     euclideanDistance (map Some p) (Some (map Some c)) = Inr (Some (euclid p c))"
proof (cases p)
  case Nil
  then show ?thesis by (simp add: euclideanDistance_def euclid_def)
next
  case (Cons a list)
  assume "length p \<le> length c"
  then have "euclid_sum (map Some p) (map Some c) 0 (Some 0) =
      Some (0 + (\<Sum>j<length p. (p ! j - c ! (0 + j))\<^sup>2))"
    by (intro euclid_sum_Some) simp
  with Cons show ?thesis
    by (simp add: euclideanDistance_def euclid_def del: euclid_sum.simps)
qed

lemma label_loop_nearest:
  "label_loop (map Some p) (map (\<lambda>c. Some (map Some c)) rest) i minDist lbl = Inr l \<Longrightarrow>
   cs = done @ rest \<Longrightarrow> i = length done \<Longrightarrow> \<forall>c\<in>set cs. length p \<le> length c \<Longrightarrow>
   nearest_so_far p cs i minDist lbl \<Longrightarrow>
     (\<exists>m. nearest_so_far p cs (length cs) m l) \<and> (cs = [] \<or> 0 \<le> l)"
proof (induction rest arbitrary: i minDist lbl "done")
  case Nil
  then show ?case by (auto simp: nearest_so_far_def split: bound.splits)
next
  case (Cons c rest)
  have c: "cs ! i = c" using Cons.prems(2,3) by simp
  have "length p \<le> length c" using Cons.prems(2,4) by simp
  then have d: "euclideanDistance (map Some p) (Some (map Some c)) = Inr (Some (euclid p c))"
    by (rule euclideanDistance_euclid)
  have cs': "cs = (done @ [c]) @ rest" "Suc i = length (done @ [c])"
    using Cons.prems(2,3) by simp_all
  show ?case
  proof (cases "below (Some (euclid p c)) minDist")
    case True
    with Cons.prems(1) d
    have step: "label_loop (map Some p) (map (\<lambda>c. Some (map Some c)) rest) (Suc i) (Dist (euclid p c)) (int i) = Inr l"
      by simp
    have "nearest_so_far p cs (Suc i) (Dist (euclid p c)) (int i)"
      using True Cons.prems(5) c
      by (auto simp: nearest_so_far_def below_def less_Suc_eq split: bound.splits)
    from Cons.IH [OF step cs' Cons.prems(4) this] show ?thesis .
  next
    case False
    with Cons.prems(1) d
    have step: "label_loop (map Some p) (map (\<lambda>c. Some (map Some c)) rest) (Suc i) minDist lbl = Inr l"
      by simp
    from False obtain m where m: "minDist = Dist m" "m \<le> euclid p c"
      by (cases minDist) (auto simp: below_def)
    have "nearest_so_far p cs (Suc i) minDist lbl"
      using m Cons.prems(5) c
      by (auto simp: nearest_so_far_def less_Suc_eq)
    from Cons.IH [OF step cs' Cons.prems(4) this] show ?thesis .
  qed
qed

lemma labelPoints_nearest:
  assumes "labelPoints points (map (\<lambda>c. Some (map Some c)) cs) = Inr labels"
    and "cs \<noteq> []" and "\<forall>p\<in>set points. \<forall>c\<in>set cs. length p \<le> length c"
  shows "\<forall>k<length points.
           0 \<le> labels ! k \<and> nat (labels ! k) < length cs \<and>
           (\<forall>i<length cs. euclid (points ! k) (cs ! nat (labels ! k)) \<le> euclid (points ! k) (cs ! i)) \<and>
           (\<forall>i<nat (labels ! k). euclid (points ! k) (cs ! nat (labels ! k)) < euclid (points ! k) (cs ! i))"
  using assms(1,3)
proof (induction points arbitrary: labels)
  case Nil
  then show ?case by simp
next
  case (Cons p ps)
  from Cons.prems(1) obtain l ls
    where l: "label_loop (map Some p) (map (\<lambda>c. Some (map Some c)) cs) 0 MaxValue (- 1) = Inr l"
    and ls: "labelPoints ps (map (\<lambda>c. Some (map Some c)) cs) = Inr ls"
    and labels: "labels = l # ls"
    by (auto split: sum.splits)
  have "nearest_so_far p cs 0 MaxValue (- 1)" by (simp add: nearest_so_far_def)
  from label_loop_nearest [OF l _ _ _ this, of "[]"] Cons.prems(2) assms(2)
  obtain m where m: "nearest_so_far p cs (length cs) m l" and l0: "0 \<le> l" by auto
  from m l0 have first: "0 \<le> l \<and> nat l < length cs \<and>
           (\<forall>i<length cs. euclid p (cs ! nat l) \<le> euclid p (cs ! i)) \<and>
           (\<forall>i<nat l. euclid p (cs ! nat l) < euclid p (cs ! i))"
    by (cases m) (auto simp: nearest_so_far_def)
  from Cons.IH [OF ls] Cons.prems(2)
  have rest: "\<forall>k<length ps.
           0 \<le> ls ! k \<and> nat (ls ! k) < length cs \<and>
           (\<forall>i<length cs. euclid (ps ! k) (cs ! nat (ls ! k)) \<le> euclid (ps ! k) (cs ! i)) \<and>
           (\<forall>i<nat (ls ! k). euclid (ps ! k) (cs ! nat (ls ! k)) < euclid (ps ! k) (cs ! i))"
    by simp
  show ?case
  proof (intro allI impI)
    fix k assume "k < length (p # ps)"
    then show "0 \<le> labels ! k \<and> nat (labels ! k) < length cs \<and>
           (\<forall>i<length cs. euclid ((p # ps) ! k) (cs ! nat (labels ! k)) \<le> euclid ((p # ps) ! k) (cs ! i)) \<and>
           (\<forall>i<nat (labels ! k). euclid ((p # ps) ! k) (cs ! nat (labels ! k)) < euclid ((p # ps) ! k) (cs ! i))"
      using first rest labels by (cases k) simp_all
  qed
qed


text \<open>
  C7. \<^verbatim>\<open>kMeansCluster\<close> repeats two steps, labelling each point with the nearest centroid
  (the first one among equally near ones) and replacing each centroid by the mean of the
  points that carry its label, and returns only when the summed distance between the new
  and the previous centroids is exactly 0; the clusters it returns all have points. When a
  round leaves a centroid without points, the round and with it \<^verbatim>\<open>kMeansCluster\<close> ends with
  the error "Centroid i has no friends" for such a centroid \<open>i\<close>.
\<close>

theorem kMeansCluster_lloyd:
  "(kMeansCluster points numCluster rnd = Some (Inr (labels, centroids)) \<longrightarrow>
      (\<exists>old. labelPoints points old = Inr labels \<and>
             calculateCentroids points labels numCluster = Inr centroids \<and>
             calculateChange centroids old = Inr (Some 0)) \<and>
      length centroids = numCluster \<and> (\<forall>i<numCluster. int i \<in> set labels)) \<and>
   (labelPoints points cs = Inr labels \<and> points \<noteq> [] \<and>
    (\<forall>l\<in>set labels. 0 \<le> l \<and> l < int numCluster) \<and> (\<exists>i<numCluster. int i \<notin> set labels) \<longrightarrow>
      (\<exists>i<numCluster. int i \<notin> set labels \<and>
         calculateCentroids points labels numCluster = Inl (CentroidNoFriends i) \<and>
         kmeans_loop points numCluster cs = Some (Inl (CentroidNoFriends i)))) \<and>
   (labelPoints points (map (\<lambda>c. Some (map Some c)) cs') = Inr labels \<and> cs' \<noteq> [] \<and>
    (\<forall>p\<in>set points. \<forall>c\<in>set cs'. length p \<le> length c) \<longrightarrow>
      (\<forall>k<length points.
         0 \<le> labels ! k \<and> nat (labels ! k) < length cs' \<and>
         (\<forall>i<length cs'. euclid (points ! k) (cs' ! nat (labels ! k)) \<le> euclid (points ! k) (cs' ! i)) \<and>
         (\<forall>i<nat (labels ! k). euclid (points ! k) (cs' ! nat (labels ! k)) < euclid (points ! k) (cs' ! i)))) \<and>
   (calculateCentroids points labels numCluster = Inr centroids \<and> length labels = length points \<and>
    (\<forall>p\<in>set points. length p = d) \<and> (\<forall>l\<in>set labels. 0 \<le> l \<and> l < int numCluster) \<longrightarrow>
      (\<forall>i<numCluster. centroids ! i =
         map (\<lambda>j. Some (group_sum points labels i j / of_nat (count_list labels (int i)))) [0 ..< d]))"
proof (intro conjI impI)
  assume r: "kMeansCluster points numCluster rnd = Some (Inr (labels, centroids))"
  then have "\<exists>old. labelPoints points old = Inr labels \<and>
             calculateCentroids points labels numCluster = Inr centroids \<and>
             calculateChange centroids old = Inr (Some 0)"
    unfolding kMeansCluster_def by (rule kmeans_loop_result_aux) simp
  then show "\<exists>old. labelPoints points old = Inr labels \<and>
             calculateCentroids points labels numCluster = Inr centroids \<and>
             calculateChange centroids old = Inr (Some 0)"
    and "length centroids = numCluster" and "\<forall>i<numCluster. int i \<in> set labels"
    using calculateCentroids_Inr by blast+
next
  assume a: "labelPoints points cs = Inr labels \<and> points \<noteq> [] \<and>
    (\<forall>l\<in>set labels. 0 \<le> l \<and> l < int numCluster) \<and> (\<exists>i<numCluster. int i \<notin> set labels)"
  then have l: "labelPoints points cs = Inr labels" and ne: "points \<noteq> []"
    and v: "\<forall>l\<in>set labels. 0 \<le> l \<and> l < int numCluster"
    and s: "\<exists>i<numCluster. int i \<notin> set labels"
    by blast+
  from calculateCentroids_starved [OF ne length_labelPoints [OF l] v s]
  obtain i where i: "i < numCluster" "int i \<notin> set labels"
    "calculateCentroids points labels numCluster = Inl (CentroidNoFriends i)" by blast
  with l have "kmeans_loop points numCluster cs = Some (Inl (CentroidNoFriends i))"
    by (subst kmeans_loop.simps) simp
  with i show "\<exists>i<numCluster. int i \<notin> set labels \<and>
         calculateCentroids points labels numCluster = Inl (CentroidNoFriends i) \<and>
         kmeans_loop points numCluster cs = Some (Inl (CentroidNoFriends i))"
    by blast
next
  assume "labelPoints points (map (\<lambda>c. Some (map Some c)) cs') = Inr labels \<and> cs' \<noteq> [] \<and>
    (\<forall>p\<in>set points. \<forall>c\<in>set cs'. length p \<le> length c)"
  then show "\<forall>k<length points.
         0 \<le> labels ! k \<and> nat (labels ! k) < length cs' \<and>
         (\<forall>i<length cs'. euclid (points ! k) (cs' ! nat (labels ! k)) \<le> euclid (points ! k) (cs' ! i)) \<and>
         (\<forall>i<nat (labels ! k). euclid (points ! k) (cs' ! nat (labels ! k)) < euclid (points ! k) (cs' ! i))"
    using labelPoints_nearest by blast
next
  assume "calculateCentroids points labels numCluster = Inr centroids \<and> length labels = length points \<and>
    (\<forall>p\<in>set points. length p = d) \<and> (\<forall>l\<in>set labels. 0 \<le> l \<and> l < int numCluster)"
  then show "\<forall>i<numCluster. centroids ! i =
         map (\<lambda>j. Some (group_sum points labels i j / of_nat (count_list labels (int i)))) [0 ..< d]"
    using calculateCentroids_means by blast
qed

text \<open>The definitions unfolded when a round is run on concrete points.\<close>

lemmas kmeans_eval =
  sample_js_def shuffleInPlace_def arr_of_list_def aslice_def aset_def aget_def
  euclideanDistance_def cadd_def csub_def cmul_def cnth_def below_def calculateCentroids_def
  makeMatrix_def add_point_def calculateChange_def Let_def eval_nat_numeral upt_rec

theorem kMeansCluster_lloyd_witness:
  "kMeansCluster [[0, 1 / 2], [1, 1 / 2]] 2 (\<lambda>c. 0) =
     Some (Inr ([1, 0], [[Some 1, Some (1 / 2)], [Some 0, Some (1 / 2)]])) \<and>
   (\<exists>old. labelPoints [[0, 1 / 2], [1, 1 / 2]] old = Inr [1, 0] \<and>
          calculateChange [[Some 1, Some (1 / 2)], [Some 0, Some (1 / 2)]] old = Inr (Some 0)) \<and>
   kMeansCluster [[0, 0], [0, 0]] 2 (\<lambda>c. 0) = Some (Inl (CentroidNoFriends 1)) \<and>
   kmeans_loop [[0, 0], [0, 0]] 2 [Some [Some 0, Some 0], Some [Some 0, Some 0]] =
     Some (Inl (CentroidNoFriends 1)) \<and>
   euclid [1, 1 / 2] [1, 1 / 2] \<le> euclid [1, 1 / 2] [0, 1 / 2] \<and>
   calculateCentroids [[0, 0], [2, 4], [7, 7]] [0, 0, 1] 2 = Inr [[Some 1, Some 2], [Some 7, Some 7]] \<and>
   [[Some 1, Some 2], [Some 7, Some 7]] ! 0 =
     map (\<lambda>j. Some (group_sum [[0, 0], [2, 4], [7, 7]] [0, 0, 1] 0 j /
                      of_nat (count_list [0, 0, 1] (int 0)))) [0 ..< 2]"
proof -
  let ?P = "[[0, 1 / 2], [1, 1 / 2]] :: real list list"
  let ?C = "[[Some 1, Some (1 / 2)], [Some 0, Some (1 / 2)]] :: coord list list"
  have run: "kMeansCluster ?P 2 (\<lambda>c. 0) = Some (Inr ([1, 0], ?C))"
    unfolding kMeansCluster_def
    by (subst kmeans_loop.simps) (simp add: kmeans_eval)
  from kMeansCluster_lloyd [THEN conjunct1, rule_format, OF run]
  have old: "\<exists>old. labelPoints ?P old = Inr [1, 0] \<and> calculateChange ?C old = Inr (Some 0)"
    by blast
  let ?Z = "[[0, 0], [0, 0]] :: real list list"
  let ?cs = "[Some [Some 0, Some 0], Some [Some 0, Some 0]] :: coord list option list"
  have lab: "labelPoints ?Z ?cs = Inr [0, 0]"
    by (simp add: kmeans_eval)
  have "\<exists>i<2. int i \<notin> set [0, 0::int]"
    by (intro exI [of _ 1]) simp
  with lab have "\<exists>i<2. int i \<notin> set [0, 0::int] \<and>
       calculateCentroids ?Z [0, 0] 2 = Inl (CentroidNoFriends i) \<and>
       kmeans_loop ?Z 2 ?cs = Some (Inl (CentroidNoFriends i))"
    by (intro kMeansCluster_lloyd [THEN conjunct2, THEN conjunct1, rule_format]) simp
  then obtain i where "i < 2" "int i \<notin> set [0, 0::int]"
    and loop: "kmeans_loop ?Z 2 ?cs = Some (Inl (CentroidNoFriends i))" by blast
  then have "i = 1" by (cases i) auto
  with loop have starved: "kmeans_loop ?Z 2 ?cs = Some (Inl (CentroidNoFriends 1))" by simp
  have "map (map_option (map Some)) (sample_js ?Z 2 (\<lambda>c. 0)) = ?cs"
    by (simp add: kmeans_eval)
  with starved have run2: "kMeansCluster ?Z 2 (\<lambda>c. 0) = Some (Inl (CentroidNoFriends 1))"
    by (simp add: kMeansCluster_def)
  have lab2: "labelPoints ?P (map (\<lambda>c. Some (map Some c)) [[1, 1 / 2], [0, 1 / 2]]) = Inr [1, 0]"
    by (simp add: kmeans_eval)
  have k: "(1::nat) < length ?P" by simp
  have hyp: "labelPoints ?P (map (\<lambda>c. Some (map Some c)) [[1, 1 / 2], [0, 1 / 2]]) = Inr [1, 0] \<and>
      [[1, 1 / 2], [0, 1 / 2 :: real]] \<noteq> [] \<and>
      (\<forall>p\<in>set ?P. \<forall>c\<in>set [[1, 1 / 2], [0, 1 / 2 :: real]]. length p \<le> length c)"
    using lab2 by simp
  from kMeansCluster_lloyd [THEN conjunct2, THEN conjunct2, THEN conjunct1, rule_format, OF hyp k]
  have "\<forall>i<length [[1, 1 / 2], [0, 1 / 2 :: real]].
          euclid (?P ! 1) ([[1, 1 / 2], [0, 1 / 2]] ! nat ([1, 0] ! 1)) \<le>
          euclid (?P ! 1) ([[1, 1 / 2], [0, 1 / 2]] ! i)"
    by blast
  then have "euclid (?P ! 1) ([[1, 1 / 2], [0, 1 / 2]] ! nat ([1, 0] ! 1)) \<le>
             euclid (?P ! 1) ([[1, 1 / 2], [0, 1 / 2]] ! 1)"
    by (rule allE [of _ 1]) simp
  then have near: "euclid [1, 1 / 2] [1, 1 / 2] \<le> euclid [1, 1 / 2] [0, 1 / 2]"
    by simp
  let ?Q = "[[0, 0], [2, 4], [7, 7]] :: real list list"
  have cc: "calculateCentroids ?Q [0, 0, 1] 2 = Inr [[Some 1, Some 2], [Some 7, Some 7]]"
    by code_simp
  have mean: "[[Some 1, Some 2], [Some 7, Some 7]] ! 0 =
     map (\<lambda>j. Some (group_sum ?Q [0, 0, 1] 0 j / of_nat (count_list [0, 0, 1] (int 0)))) [0 ..< 2]"
    by (rule kMeansCluster_lloyd [THEN conjunct2, THEN conjunct2, THEN conjunct2, rule_format,
          of ?Q "[0, 0, 1]" 2 "[[Some 1, Some 2], [Some 7, Some 7]]" 2 0]) (simp_all add: cc)
  show ?thesis
    apply (intro conjI)
          apply (rule run)
         apply (rule old)
        apply (rule run2)
       apply (rule starved)
      apply (rule near)
     apply (rule cc)
    apply (rule mean)
    done
qed



section \<open>Collapsing a class that is not the last one\<close>

text \<open>
  C6. Twenty observations, five in each of the classes 0 to 3, against a distribution
  with the expected counts 5, 2, 5 and 8: only class 1 is expected fewer than 3 times.
  Merging it into class 0 gives the expected counts 7, 5, 8 against the observed counts
  10, 5, 5, a statistic below the critical value 3.84 (one degree of freedom, significance
  0.05). \<^verbatim>\<open>chiSquaredGoodnessOfFit\<close> adds class 1 to class 0 but then removes the last class
  (\<^verbatim>\<open>pop()\<close>) instead of class 1: it compares the expected counts 7, 2, 5 with the observed
  counts 10, 5, 5 and rejects the fit.
\<close>

theorem chiSquaredGoodnessOfFit_collapse_inner_class:
  "collapse 4 [5, 2, 5, 8] [5, 5, 5, 5] = ([7, 2, 5], [10, 5, 5]) \<and>
   merge_low 4 [5, 2, 5, 8] [5, 5, 5, 5] = ([7, 5, 8], [10, 5, 5]) \<and>
   chiSquaredGoodnessOfFit [0, 0, 0, 0, 0, 1, 1, 1, 1, 1, 2, 2, 2, 2, 2, 3, 3, 3, 3, 3]
       (\<lambda>inputMean. Some [1 / 4, 1 / 10, 1 / 4, 2 / 5]) 0.05 = Inr True \<and>
   critical_below (map_of (the (map_of chiSquaredDistributionTable 1)) 0.05)
       (chi_statistic [7, 5, 8] [10, 5, 5]) = False"
proof -
  have "collapse 4 [5, 2, 5, 8] [5, 5, 5, 5] = ([7, 2, 5], [10, 5, 5])"
    by code_simp
  moreover have "merge_low 4 [5, 2, 5, 8] [5, 5, 5, 5] = ([7, 5, 8], [10, 5, 5])"
    by code_simp
  moreover have "chiSquaredGoodnessOfFit [0, 0, 0, 0, 0, 1, 1, 1, 1, 1, 2, 2, 2, 2, 2, 3, 3, 3, 3, 3]
       (\<lambda>inputMean. Some [1 / 4, 1 / 10, 1 / 4, 2 / 5]) 0.05 = Inr True"
    by code_simp
  moreover have "critical_below (map_of (the (map_of chiSquaredDistributionTable 1)) 0.05)
       (chi_statistic [7, 5, 8] [10, 5, 5]) = False"
    by code_simp
  ultimately show ?thesis by simp
qed

section \<open>Ckmeans returns an optimal clustering\<close>

subsection \<open>The within-group sum of squares\<close>


























subsection \<open>The optimum and its last group\<close>














subsection \<open>One entry of the matrices\<close>






subsection \<open>The matrices\<close>

text \<open>
  \<^verbatim>\<open>ssq\<close> on the cumulative sums of the shifted values is the sum of squares of the range, and
  the rows are filled with optimal values and best left ends.
\<close>

lemma length_cumulative: "length (cumulative vs acc) = length vs"
  by (induction vs arbitrary: acc) simp_all


















subsection \<open>Backtracking and the result\<close>













end
